theory Spec2Isabelle
  imports Complex_Main
begin

section \<open>Values, files and collaborators\<close>

text \<open>
  The two modules \<^verbatim>\<open>FDSNtools.py\<close> and \<^verbatim>\<open>wrappers.py\<close> are embedded as functions on
  an explicit world: the file system (a map from paths to nodes) and the list of calls
  made to the collaborators, oldest first. Every function returns its Python result
  (\<open>Inl\<close> for a raised exception) together with the world it leaves behind.

  A \<^verbatim>\<open>UTCDateTime\<close> is the number of seconds since the epoch, a finite Python float the
  real number it denotes. The ObsPy, NumPy and operating-system calls are not part of the
  two modules; what they answer is a parameter, the record \<open>env\<close>.
\<close>

type_synonym utc = real

datatype pyfloat = Finite real | NaN

datatype exn =
    IndexError | ValueError | TypeError | NameError | UnboundLocalError
  | AttributeError | FileExistsError | FileNotFoundError | IsADirectoryError
  | LibraryError

text \<open>\<^verbatim>\<open>UnboundLocalError\<close> is a subclass of \<^verbatim>\<open>NameError\<close>.\<close>

definition is_NameError :: "exn \<Rightarrow> bool" where
  "is_NameError x = (x = NameError \<or> x = UnboundLocalError)"

record trace =
  tr_network :: string
  tr_station :: string
  tr_location :: string
  tr_channel :: string
  tr_sampling_rate :: pyfloat
  tr_starttime :: utc
  tr_npts :: nat
  tr_distance :: real

type_synonym stream = "trace list"

datatype inventory = Inventory (networks: "string list")

datatype filedata = StationXML inventory | MiniSEED stream | PNG | Unreadable

datatype node = Dir | File filedata

datatype client = Client (base_url: string)

text \<open>What a caller may hand over as \<^verbatim>\<open>fdsnClient\<close>: a client, a string, or anything else.\<close>

datatype fdsn_thing = IsClient client | IsStr string | IsOther

record station_query =
  q_network :: string
  q_station :: string
  q_channel :: string
  q_latitude :: "real option"
  q_longitude :: "real option"
  q_maxradius :: "real option"
  q_starttime :: utc
  q_endtime :: utc
  q_level :: string

datatype event =
    ClientInit string
  | GetStations client station_query
  | GetWaveforms client string string string string utc utc
  | SDSRead string utc utc nat "string list option"
  | SDSWrite string stream bool
  | RSAMWrite string stream
  | DRSWrite string stream
  | Plot string

record world =
  fs :: "string \<Rightarrow> node option"
  events :: "event list"

type_synonym 'a result = "(exn + 'a) \<times> world"

record env =
  utc_strftime :: "string \<Rightarrow> utc \<Rightarrow> string"
  client_init :: "string \<Rightarrow> exn + client"
  client_get_stations :: "client \<Rightarrow> station_query \<Rightarrow> exn + inventory"
  client_get_waveforms ::
    "client \<Rightarrow> string \<Rightarrow> string \<Rightarrow> string \<Rightarrow> string \<Rightarrow> utc \<Rightarrow> utc \<Rightarrow> exn + stream"
  stream_merge :: "real \<Rightarrow> nat \<Rightarrow> stream \<Rightarrow> exn + stream"
  stream_trim :: "stream \<Rightarrow> utc \<Rightarrow> utc \<Rightarrow> stream"
  stream_select :: "string \<Rightarrow> stream \<Rightarrow> stream"
  trace_remove_response :: "string \<Rightarrow> inventory \<Rightarrow> trace \<Rightarrow> trace"
  sds_read ::
    "world \<Rightarrow> string \<Rightarrow> utc \<Rightarrow> utc \<Rightarrow> nat \<Rightarrow> string list option \<Rightarrow> int \<times> stream"
  inventory2traceid :: "inventory \<Rightarrow> string list"
  attach_station_coordinates_from_inventory :: "inventory \<Rightarrow> stream \<Rightarrow> stream"
  attach_distance_to_stream :: "stream \<Rightarrow> real option \<Rightarrow> real option \<Rightarrow> stream"
  py_int :: "string \<Rightarrow> exn + int"
  argsort :: "real list \<Rightarrow> nat list"

definition log_event :: "event \<Rightarrow> world \<Rightarrow> world" where
  "log_event ev w = w\<lparr>events := events w @ [ev]\<rparr>"

text \<open>The queries sent to the remote data centre.\<close>

definition is_query :: "event \<Rightarrow> bool" where
  "is_query ev = (case ev of GetStations c q \<Rightarrow> True
                  | GetWaveforms c n s l ch t1 t2 \<Rightarrow> True
                  | _ \<Rightarrow> False)"

definition queries :: "world \<Rightarrow> event list" where
  "queries w = filter is_query (events w)"

text \<open>The reads of the day archive.\<close>

definition is_read :: "event \<Rightarrow> bool" where
  "is_read ev = (case ev of SDSRead d t1 t2 speed ids \<Rightarrow> True | _ \<Rightarrow> False)"

definition reads :: "world \<Rightarrow> event list" where
  "reads w = filter is_read (events w)"

text \<open>The calls of a fallback path: the queries and the writes to the day archive.\<close>

definition is_archive_write :: "event \<Rightarrow> bool" where
  "is_archive_write ev = (case ev of SDSWrite d st overwrite \<Rightarrow> True | _ \<Rightarrow> False)"

definition fallback_events :: "world \<Rightarrow> event list" where
  "fallback_events w = filter (\<lambda>ev. is_query ev \<or> is_archive_write ev) (events w)"

section \<open>The file system calls\<close>

definition isdir :: "world \<Rightarrow> string \<Rightarrow> bool" where
  "isdir w p = (case fs w p of Some Dir \<Rightarrow> True | _ \<Rightarrow> False)"

definition isfile :: "world \<Rightarrow> string \<Rightarrow> bool" where
  "isfile w p = (case fs w p of Some (File d) \<Rightarrow> True | _ \<Rightarrow> False)"

text \<open>\<^verbatim>\<open>os.path.dirname\<close>: the path up to its last slash, trailing slashes removed.\<close>

definition dirname :: "string \<Rightarrow> string" where
  "dirname p =
     (let h = rev (dropWhile (\<lambda>c. c \<noteq> CHR ''/'') (rev p))
      in if h \<noteq> [] \<and> (\<exists>c \<in> set h. c \<noteq> CHR ''/'')
         then rev (dropWhile (\<lambda>c. c = CHR ''/'') (rev h)) else h)"

text \<open>
  \<^verbatim>\<open>os.mkdir\<close> raises when the path exists already, as a file or as a directory, and
  when its parent directory is missing. The working directory always exists.
\<close>

definition os_mkdir :: "world \<Rightarrow> string \<Rightarrow> exn + world" where
  "os_mkdir w p =
     (if fs w p \<noteq> None then Inl FileExistsError
      else if dirname p \<noteq> [] \<and> dirname p \<noteq> ''.'' \<and> \<not> isdir w (dirname p)
      then Inl FileNotFoundError
      else Inr (w\<lparr>fs := (fs w)(p \<mapsto> Dir)\<rparr>))"

definition os_path_join :: "string \<Rightarrow> string \<Rightarrow> string" where
  "os_path_join a b =
     (if b \<noteq> [] \<and> hd b = CHR ''/'' then b
      else if a = [] \<or> last a = CHR ''/'' then a @ b
      else a @ ''/'' @ b)"

definition write_file :: "world \<Rightarrow> string \<Rightarrow> filedata \<Rightarrow> exn + world" where
  "write_file w p d =
     (case fs w p of Some Dir \<Rightarrow> Inl IsADirectoryError
      | _ \<Rightarrow> Inr (w\<lparr>fs := (fs w)(p \<mapsto> File d)\<rparr>))"

section \<open>String formatting\<close>

definition digit_char :: "nat \<Rightarrow> char" where
  "digit_char d = ''0123456789'' ! d"

text \<open>\<^verbatim>\<open>str(n)\<close> of a natural number.\<close>

fun dec :: "nat \<Rightarrow> string" where
  "dec n = (if n < 10 then [digit_char n] else dec (n div 10) @ [digit_char (n mod 10)])"

declare dec.simps [simp del]

text \<open>The last \<open>k\<close> decimal digits of \<open>n\<close>, zero padded.\<close>

primrec fixed_digits :: "nat \<Rightarrow> nat \<Rightarrow> string" where
  "fixed_digits 0 n = []"
| "fixed_digits (Suc k) n = fixed_digits k (n div 10) @ [digit_char (n mod 10)]"

text \<open>Rounding to the nearest integer, ties to the even one, as the float formatter does.\<close>

definition round_half_even :: "real \<Rightarrow> int" where
  "round_half_even y =
     (let f = \<lfloor>y\<rfloor>; r = y - of_int f
      in if r < 1 / 2 then f
         else if 1 / 2 < r then f + 1
         else if even f then f else f + 1)"

definition scaled_digits :: "nat \<Rightarrow> real \<Rightarrow> nat" where
  "scaled_digits d x = nat (round_half_even (\<bar>x\<bar> * 10 ^ d))"

text \<open>
  \<^verbatim>\<open>'%.df' % x\<close> for \<open>d > 0\<close>: the sign, the integer part, a point and \<open>d\<close> digits.
  The argument \<^verbatim>\<open>None\<close> is a \<^verbatim>\<open>TypeError\<close>.
\<close>

definition fmt_f :: "nat \<Rightarrow> real option \<Rightarrow> exn + string" where
  "fmt_f d v =
     (case v of
        None \<Rightarrow> Inl TypeError
      | Some x \<Rightarrow>
          Inr ((if x < 0 then ''-'' else '''')
               @ dec (scaled_digits d x div 10 ^ d) @ ''.''
               @ fixed_digits d (scaled_digits d x mod 10 ^ d)))"

text \<open>\<^verbatim>\<open>s.split(c)\<close>: the pieces between the separators, never an empty list.\<close>

fun split_on :: "char \<Rightarrow> string \<Rightarrow> string list" where
  "split_on c [] = [[]]"
| "split_on c (x # xs) =
     (if x = c then [] # split_on c xs
      else (case split_on c xs of [] \<Rightarrow> [[x]] | p # ps \<Rightarrow> (x # p) # ps))"

section \<open>FDSNtools\<close>

definition CACHE_DIR :: string where
  "CACHE_DIR = os_path_join ''.'' ''cache''"

definition check_client_or_string :: "env \<Rightarrow> fdsn_thing \<Rightarrow> world \<Rightarrow> (client option) result" where
  "check_client_or_string e fdsnThing w =
     (case fdsnThing of
        IsClient c \<Rightarrow> (Inr (Some c), w)
      | IsStr s \<Rightarrow>
          (case client_init e s of
             Inl x \<Rightarrow> (Inl x, log_event (ClientInit s) w)
           | Inr c \<Rightarrow> (Inr (Some c), log_event (ClientInit s) w))
      | IsOther \<Rightarrow> (Inr None, w))"

definition make_cache_dir :: "world \<Rightarrow> string \<Rightarrow> exn + world" where
  "make_cache_dir w cachedir = (if \<not> isdir w cachedir then os_mkdir w cachedir else Inr w)"

definition get_stationXML_filename ::
  "env \<Rightarrow> world \<Rightarrow> utc \<Rightarrow> utc \<Rightarrow> real option \<Rightarrow> real option \<Rightarrow> real option \<Rightarrow> string
   \<Rightarrow> string result" where
  "get_stationXML_filename e w startt endt centerlat centerlon searchRadiusDeg cachedir =
     (case make_cache_dir w cachedir of
        Inl x \<Rightarrow> (Inl x, w)
      | Inr w' \<Rightarrow>
          (case fmt_f 4 centerlat of
             Inl x \<Rightarrow> (Inl x, w')
           | Inr lat \<Rightarrow>
          (case fmt_f 4 centerlon of
             Inl x \<Rightarrow> (Inl x, w')
           | Inr lon \<Rightarrow>
          (case fmt_f 2 searchRadiusDeg of
             Inl x \<Rightarrow> (Inl x, w')
           | Inr rad \<Rightarrow>
               (Inr (os_path_join cachedir
                      (utc_strftime e ''%Y%m%d%H%M'' startt @ ''_''
                       @ utc_strftime e ''%Y%m%d%H%M'' endt @ ''_''
                       @ lat @ ''_'' @ lon @ ''_'' @ rad @ ''.SML'')), w')))))"

definition get_MSEED_filename ::
  "env \<Rightarrow> world \<Rightarrow> utc \<Rightarrow> utc \<Rightarrow> string list \<Rightarrow> string \<Rightarrow> string result" where
  "get_MSEED_filename e w startt endt trace_ids cachedir =
     (case make_cache_dir w cachedir of
        Inl x \<Rightarrow> (Inl x, w)
      | Inr w' \<Rightarrow>
          (if trace_ids = [] then (Inl IndexError, w')
           else (Inr (os_path_join cachedir
                       (utc_strftime e ''%Y%m%d%H%M'' startt @ ''_''
                        @ utc_strftime e ''%Y%m%d%H%M'' endt @ ''_''
                        @ hd trace_ids @ ''_'' @ last trace_ids @ ''.MSEED'')), w')))"




text \<open>\<^verbatim>\<open>read_inventory\<close> and \<^verbatim>\<open>obspy.core.read\<close> raise on a file of another kind.\<close>

definition read_inventory :: "world \<Rightarrow> string \<Rightarrow> exn + inventory" where
  "read_inventory w p =
     (case fs w p of Some (File (StationXML inv')) \<Rightarrow> Inr inv' | _ \<Rightarrow> Inl LibraryError)"

definition obspy_read :: "world \<Rightarrow> string \<Rightarrow> exn + stream" where
  "obspy_read w p =
     (case fs w p of Some (File (MiniSEED st)) \<Rightarrow> Inr st | _ \<Rightarrow> Inl LibraryError)"

text \<open>
  \<^verbatim>\<open>get_inventory\<close>. The result \<open>None\<close> is Python's \<^verbatim>\<open>None\<close>. The only \<^verbatim>\<open>return inv\<close>
  of the source stands in the \<^verbatim>\<open>else\<close> of the \<^verbatim>\<open>try\<close>, inside the branch that asks
  the client; the branch that reads the cache file ends the function without a
  \<^verbatim>\<open>return\<close>. A client that is \<^verbatim>\<open>None\<close> raises \<^verbatim>\<open>AttributeError\<close> inside the
  \<^verbatim>\<open>try\<close>, which \<^verbatim>\<open>except Exception\<close> turns into \<^verbatim>\<open>None\<close>.
\<close>

definition get_inventory ::
  "env \<Rightarrow> fdsn_thing \<Rightarrow> utc \<Rightarrow> utc \<Rightarrow> real option \<Rightarrow> real option \<Rightarrow> real option
   \<Rightarrow> string \<Rightarrow> string \<Rightarrow> string \<Rightarrow> bool \<Rightarrow> bool \<Rightarrow> world \<Rightarrow> (inventory option) result" where
  "get_inventory e fdsnClient startt endt centerlat centerlon searchRadiusDeg
       net sta chan overwrite cache w =
     (case get_stationXML_filename e w startt endt centerlat centerlon searchRadiusDeg CACHE_DIR of
        (Inl x, w1) \<Rightarrow> (Inl x, w1)
      | (Inr stationXmlFile, w1) \<Rightarrow>
          if isfile w1 stationXmlFile \<and> \<not> overwrite then
            (case read_inventory w1 stationXmlFile of
               Inl x \<Rightarrow> (Inl x, w1)
             | Inr inv' \<Rightarrow> (Inr None, w1))
          else
            (case check_client_or_string e fdsnClient w1 of
               (Inl x, w2) \<Rightarrow> (Inl x, w2)
             | (Inr None, w2) \<Rightarrow> (Inr None, w2)
             | (Inr (Some c), w2) \<Rightarrow>
                 (let q = \<lparr>q_network = net, q_station = sta, q_channel = chan,
                           q_latitude = centerlat, q_longitude = centerlon,
                           q_maxradius = searchRadiusDeg, q_starttime = startt,
                           q_endtime = endt, q_level = ''response''\<rparr>;
                      w3 = log_event (GetStations c q) w2
                  in case client_get_stations e c q of
                       Inl x \<Rightarrow> (Inr None, w3)
                     | Inr inv' \<Rightarrow>
                         if cache then
                           (case write_file w3 stationXmlFile (StationXML inv') of
                              Inl x \<Rightarrow> (Inl x, w3)
                            | Inr w4 \<Rightarrow> (Inr (Some inv'), w4))
                         else (Inr (Some inv'), w3))))"

text \<open>\<^verbatim>\<open>np.nanmean\<close>: the mean of the entries that are numbers, \<^verbatim>\<open>nan\<close> when there is none.\<close>

fun finite_values :: "pyfloat list \<Rightarrow> real list" where
  "finite_values [] = []"
| "finite_values (Finite r # xs) = r # finite_values xs"
| "finite_values (NaN # xs) = finite_values xs"

definition nanmean :: "pyfloat list \<Rightarrow> pyfloat" where
  "nanmean xs =
     (let ys = finite_values xs
      in if ys = [] then NaN else Finite (sum_list ys / of_nat (length ys)))"

text \<open>
  The loop \<^verbatim>\<open>for tr2 in ...: tr2.stats.sampling_rate = fsamp\<close>. The assignment recomputes
  the end time of the trace from its start time, its number of samples and the new rate;
  with \<^verbatim>\<open>nan\<close> for the rate and a trace that has samples this raises \<^verbatim>\<open>ValueError\<close>.
\<close>

definition set_rates :: "pyfloat \<Rightarrow> stream \<Rightarrow> exn + stream" where
  "set_rates fsamp st =
     (if fsamp = NaN \<and> list_ex (\<lambda>tr2. tr_npts tr2 \<noteq> 0) st then Inl ValueError
      else Inr (map (\<lambda>tr2. tr2\<lparr>tr_sampling_rate := fsamp\<rparr>) st))"

text \<open>
  One round of the loop over \<^verbatim>\<open>trace_ids\<close> in \<^verbatim>\<open>get_stream\<close>. The state of the loop is
  the collection \<open>st\<close> and the variable \<open>this_st\<close>, which the rounds overwrite and the
  code after the loop reads. A merge that raises leaves its stream as it was. The
  repaired stream of the \<^verbatim>\<open>except\<close> branch is merged again outside any \<^verbatim>\<open>try\<close>, and the
  statement \<^verbatim>\<open>st += this_st\<close> stands in the \<^verbatim>\<open>try\<close> only.
\<close>

definition fetch_trace_id ::
  "env \<Rightarrow> client option \<Rightarrow> utc \<Rightarrow> utc \<Rightarrow> string \<Rightarrow> stream \<Rightarrow> world
   \<Rightarrow> (stream \<times> stream) result" where
  "fetch_trace_id e fdsnClient startt endt trace_id st w =
     (let parts = split_on CHR ''.'' trace_id in
      if length parts \<noteq> 4 then (Inl ValueError, w)
      else
        (case fdsnClient of
           None \<Rightarrow> (Inr (st, []), w)
         | Some c \<Rightarrow>
             (let w1 = log_event
                         (GetWaveforms c (parts ! 0) (parts ! 1) (parts ! 2) (parts ! 3) startt endt) w
              in case client_get_waveforms e c (parts ! 0) (parts ! 1) (parts ! 2) (parts ! 3)
                        startt endt of
                   Inl x \<Rightarrow> (Inr (st, []), w1)
                 | Inr this_st \<Rightarrow>
                     if this_st \<noteq> [] then
                       (case stream_merge e 0 1 this_st of
                          Inr merged \<Rightarrow> (Inr (st @ merged, merged), w1)
                        | Inl x \<Rightarrow>
                            (let fsamp = nanmean (map tr_sampling_rate this_st)
                             in case set_rates fsamp this_st of
                                  Inl x' \<Rightarrow> (Inl x', w1)
                                | Inr repaired \<Rightarrow>
                                    (case stream_merge e 0 1 repaired of
                                       Inl x' \<Rightarrow> (Inl x', w1)
                                     | Inr merged \<Rightarrow> (Inr (st, merged), w1))))
                     else (Inr (st, this_st), w1))))"

fun fetch_loop ::
  "env \<Rightarrow> client option \<Rightarrow> utc \<Rightarrow> utc \<Rightarrow> string list \<Rightarrow> stream \<Rightarrow> stream option \<Rightarrow> world
   \<Rightarrow> (stream \<times> stream option) result" where
  "fetch_loop e fdsnClient startt endt [] st this_st w = (Inr (st, this_st), w)"
| "fetch_loop e fdsnClient startt endt (trace_id # rest) st this_st w =
     (case fetch_trace_id e fdsnClient startt endt trace_id st w of
        (Inl x, w1) \<Rightarrow> (Inl x, w1)
      | (Inr (st1, this_st1), w1) \<Rightarrow>
          fetch_loop e fdsnClient startt endt rest st1 (Some this_st1) w1)"

text \<open>
  The code after the loop. The mean of the repair is taken over \<^verbatim>\<open>this_st\<close>, the
  assignment runs over \<^verbatim>\<open>st\<close>.
\<close>

definition merge_collection ::
  "env \<Rightarrow> stream \<Rightarrow> stream option \<Rightarrow> bool \<Rightarrow> string \<Rightarrow> world \<Rightarrow> stream result" where
  "merge_collection e st this_st cache mseedfile w =
     (if st = [] then (Inr st, w)
      else
        (case (case stream_merge e 0 1 st of
                 Inr merged \<Rightarrow> Inr merged
               | Inl x \<Rightarrow>
                   (case this_st of
                      None \<Rightarrow> Inl UnboundLocalError
                    | Some ts \<Rightarrow>
                        (case set_rates (nanmean (map tr_sampling_rate ts)) st of
                           Inl x' \<Rightarrow> Inl x'
                         | Inr repaired \<Rightarrow> stream_merge e 0 1 repaired))) of
           Inl x \<Rightarrow> (Inl x, w)
         | Inr merged \<Rightarrow>
             if cache then
               (case write_file w mseedfile (MiniSEED merged) of
                  Inl x \<Rightarrow> (Inl x, w)
                | Inr w' \<Rightarrow> (Inr merged, w'))
             else (Inr merged, w)))"

text \<open>The \<^verbatim>\<open>else\<close> branch of \<^verbatim>\<open>get_stream\<close>: the data are asked from the client.\<close>

definition fetch_from_client ::
  "env \<Rightarrow> fdsn_thing \<Rightarrow> string list \<Rightarrow> utc \<Rightarrow> utc \<Rightarrow> bool \<Rightarrow> string \<Rightarrow> world
   \<Rightarrow> stream result" where
  "fetch_from_client e fdsnClient trace_ids startt endt cache mseedfile w =
     (case check_client_or_string e fdsnClient w of
        (Inl x, w2) \<Rightarrow> (Inl x, w2)
      | (Inr cl, w2) \<Rightarrow>
          (case fetch_loop e cl startt endt trace_ids [] None w2 of
             (Inl x, w3) \<Rightarrow> (Inl x, w3)
           | (Inr (st, this_st), w3) \<Rightarrow>
               merge_collection e st this_st cache mseedfile w3))"

definition get_stream ::
  "env \<Rightarrow> fdsn_thing \<Rightarrow> string list \<Rightarrow> utc \<Rightarrow> utc \<Rightarrow> bool \<Rightarrow> bool \<Rightarrow> world \<Rightarrow> stream result" where
  "get_stream e fdsnClient trace_ids startt endt overwrite cache w =
     (case get_MSEED_filename e w startt endt trace_ids CACHE_DIR of
        (Inl x, w1) \<Rightarrow> (Inl x, w1)
      | (Inr mseedfile, w1) \<Rightarrow>
          if isfile w1 mseedfile \<and> \<not> overwrite then
            (case obspy_read w1 mseedfile of
               Inl x \<Rightarrow> (Inl x, w1)
             | Inr st \<Rightarrow> (Inr st, w1))
          else fetch_from_client e fdsnClient trace_ids startt endt cache mseedfile w1)"

section \<open>wrappers\<close>

text \<open>
  The collaborators of the wrappers (the day archive \<^verbatim>\<open>SDS.SDSobj\<close>, \<^verbatim>\<open>InventoryTools\<close>,
  \<^verbatim>\<open>IceWeb\<close>) are taken to return; each call to the archive, to a metric writer and to
  the plotter is logged. What \<^verbatim>\<open>print\<close> writes is not part of the world.
\<close>

definition secsPerDay :: real where
  "secsPerDay = 86400"

definition truthy_inv :: "inventory option \<Rightarrow> bool" where
  "truthy_inv i = (case i of None \<Rightarrow> False | Some v \<Rightarrow> networks v \<noteq> [])"

definition truthy_ids :: "string list option \<Rightarrow> bool" where
  "truthy_ids t = (case t of None \<Rightarrow> False | Some l \<Rightarrow> l \<noteq> [])"

definition truthy_num :: "real option \<Rightarrow> bool" where
  "truthy_num v = (case v of None \<Rightarrow> False | Some x \<Rightarrow> x \<noteq> 0)"

subsection \<open>FDSN_to_SDS_daily_wrapper\<close>

text \<open>The block under \<^verbatim>\<open>if not trace_ids\<close>: it may rebind \<^verbatim>\<open>trace_ids\<close> and \<^verbatim>\<open>inv\<close>.\<close>

definition resolve_trace_ids ::
  "env \<Rightarrow> utc \<Rightarrow> utc \<Rightarrow> real option \<Rightarrow> real option \<Rightarrow> real option \<Rightarrow> string list option
   \<Rightarrow> fdsn_thing \<Rightarrow> bool \<Rightarrow> inventory option \<Rightarrow> world
   \<Rightarrow> (string list option \<times> inventory option) result" where
  "resolve_trace_ids e startt eod centerlat centerlon searchRadiusDeg trace_ids fdsnURL
       overwrite inv' w =
     (if \<not> truthy_ids trace_ids then
        (if truthy_inv inv' then
           (case inv' of
              Some v \<Rightarrow> (Inr (Some (inventory2traceid e v), inv'), w)
            | None \<Rightarrow> (Inr (trace_ids, inv'), w))
         else
           (case get_inventory e fdsnURL startt eod centerlat centerlon searchRadiusDeg
                   ''*'' ''*'' ''*'' overwrite False w of
              (Inl x, w1) \<Rightarrow> (Inl x, w1)
            | (Inr inv2, w1) \<Rightarrow>
                (if truthy_inv inv2 then
                   (case inv2 of
                      Some v \<Rightarrow> (Inr (Some (inventory2traceid e v), inv2), w1)
                    | None \<Rightarrow> (Inr (trace_ids, inv2), w1))
                 else (Inr (trace_ids, inv2), w1))))
      else (Inr (trace_ids, inv'), w))"

text \<open>The block under \<^verbatim>\<open>if thisSDSobj.read(...) or overwrite\<close>.\<close>

definition fetch_and_write ::
  "env \<Rightarrow> utc \<Rightarrow> utc \<Rightarrow> string \<Rightarrow> real option \<Rightarrow> real option \<Rightarrow> real option
   \<Rightarrow> string list option \<Rightarrow> fdsn_thing \<Rightarrow> bool \<Rightarrow> inventory option \<Rightarrow> world
   \<Rightarrow> (string list option \<times> inventory option) result" where
  "fetch_and_write e startt eod SDS_TOP centerlat centerlon searchRadiusDeg trace_ids fdsnURL
       overwrite inv' w =
     (case resolve_trace_ids e startt eod centerlat centerlon searchRadiusDeg trace_ids fdsnURL
             overwrite inv' w of
        (Inl x, w1) \<Rightarrow> (Inl x, w1)
      | (Inr (ids, inv2), w1) \<Rightarrow>
          (case ids of
             Some (t # ts) \<Rightarrow>
               (case get_stream e fdsnURL (t # ts) startt eod overwrite False w1 of
                  (Inl x, w2) \<Rightarrow> (Inl x, w2)
                | (Inr st, w2) \<Rightarrow>
                    (Inr (ids, inv2), log_event (SDSWrite SDS_TOP st overwrite) w2))
           | _ \<Rightarrow> (Inr (ids, inv2), w1)))"

text \<open>One round of the day loop, up to the statement that advances \<^verbatim>\<open>startt\<close>.\<close>

definition FDSN_to_SDS_day ::
  "env \<Rightarrow> utc \<Rightarrow> string \<Rightarrow> real option \<Rightarrow> real option \<Rightarrow> real option
   \<Rightarrow> string list option \<Rightarrow> fdsn_thing \<Rightarrow> bool \<Rightarrow> inventory option \<Rightarrow> world
   \<Rightarrow> (string list option \<times> inventory option) result" where
  "FDSN_to_SDS_day e startt SDS_TOP centerlat centerlon searchRadiusDeg trace_ids fdsnURL
       overwrite inv' w =
     (let eod = startt + secsPerDay;
          w1 = log_event (SDSRead SDS_TOP startt eod 2 None) w
      in if fst (sds_read e w SDS_TOP startt eod 2 None) \<noteq> 0 \<or> overwrite then
           fetch_and_write e startt eod SDS_TOP centerlat centerlon searchRadiusDeg trace_ids
             fdsnURL overwrite inv' w1
         else (Inr (trace_ids, inv'), w1))"

function FDSN_to_SDS_daily_wrapper ::
  "env \<Rightarrow> utc \<Rightarrow> utc \<Rightarrow> string \<Rightarrow> real option \<Rightarrow> real option \<Rightarrow> real option
   \<Rightarrow> string list option \<Rightarrow> fdsn_thing \<Rightarrow> bool \<Rightarrow> inventory option \<Rightarrow> world
   \<Rightarrow> unit result" where
  "FDSN_to_SDS_daily_wrapper e startt endt SDS_TOP centerlat centerlon searchRadiusDeg trace_ids
       fdsnURL overwrite inv' w =
     (if startt < endt then
        (case FDSN_to_SDS_day e startt SDS_TOP centerlat centerlon searchRadiusDeg trace_ids
                fdsnURL overwrite inv' w of
           (Inl x, w1) \<Rightarrow> (Inl x, w1)
         | (Inr (ids, inv2), w1) \<Rightarrow>
             FDSN_to_SDS_daily_wrapper e (startt + secsPerDay) endt SDS_TOP centerlat centerlon
               searchRadiusDeg ids fdsnURL overwrite inv2 w1)
      else (Inr (), w))"
  by pat_completeness auto
termination
  by (relation "measure (\<lambda>(e, startt, endt, rest). nat \<lceil>endt - startt\<rceil>)")
     (auto simp: secsPerDay_def diff_diff_eq [symmetric])

declare FDSN_to_SDS_daily_wrapper.simps [simp del]

subsection \<open>SDS_to_RSAM_wrapper\<close>

text \<open>
  The module imports \<^verbatim>\<open>IceWeb\<close> as a module only; the name \<^verbatim>\<open>RSAMobj\<close>, which the
  branch calls unqualified, is bound nowhere, so the call raises \<^verbatim>\<open>NameError\<close>
  before any of its arguments is evaluated.
\<close>

definition SDS_to_RSAM_day ::
  "env \<Rightarrow> utc \<Rightarrow> string \<Rightarrow> string list option \<Rightarrow> bool \<Rightarrow> world \<Rightarrow> unit result" where
  "SDS_to_RSAM_day e startt SDS_TOP trace_ids overwrite w =
     (let eod = startt + secsPerDay;
          w1 = log_event (SDSRead SDS_TOP (startt - 3600) (eod + 3600) 2 trace_ids) w
      in if fst (sds_read e w SDS_TOP (startt - 3600) (eod + 3600) 2 trace_ids) = 0 \<or> overwrite
         then (Inl NameError, w1)
         else (Inr (), w1))"

function SDS_to_RSAM_wrapper ::
  "env \<Rightarrow> utc \<Rightarrow> utc \<Rightarrow> string \<Rightarrow> string list option \<Rightarrow> bool \<Rightarrow> world \<Rightarrow> unit result" where
  "SDS_to_RSAM_wrapper e startt endt SDS_TOP trace_ids overwrite w =
     (if startt < endt then
        (case SDS_to_RSAM_day e startt SDS_TOP trace_ids overwrite w of
           (Inl x, w1) \<Rightarrow> (Inl x, w1)
         | (Inr u, w1) \<Rightarrow>
             SDS_to_RSAM_wrapper e (startt + secsPerDay) endt SDS_TOP trace_ids overwrite w1)
      else (Inr (), w))"
  by pat_completeness auto
termination
  by (relation "measure (\<lambda>(e, startt, endt, rest). nat \<lceil>endt - startt\<rceil>)")
     (auto simp: secsPerDay_def diff_diff_eq [symmetric])

declare SDS_to_RSAM_wrapper.simps [simp del]

subsection \<open>SDS_to_spectrogram_wrapper\<close>

text \<open>\<^verbatim>\<open>spobj.plot(outfile=...)\<close> writes the image file; the call is logged.\<close>

definition plot_spectrogram :: "world \<Rightarrow> string \<Rightarrow> unit result" where
  "plot_spectrogram w outfile =
     (case write_file (log_event (Plot outfile) w) outfile PNG of
        Inl x \<Rightarrow> (Inl x, log_event (Plot outfile) w)
      | Inr w' \<Rightarrow> (Inr (), w'))"

text \<open>The loop \<^verbatim>\<open>for tr in st\<close> that corrects the seismic channels.\<close>

fun remove_response_seismic :: "env \<Rightarrow> inventory \<Rightarrow> stream \<Rightarrow> exn + stream" where
  "remove_response_seismic e v [] = Inr []"
| "remove_response_seismic e v (tr # rest) =
     (if length (tr_channel tr) < 3 then Inl IndexError
      else
        (case remove_response_seismic e v rest of
           Inl x \<Rightarrow> Inl x
         | Inr rest' \<Rightarrow>
             Inr ((if tr_channel tr ! 2 \<in> set ''ENZ''
                   then trace_remove_response e ''DISP'' v tr else tr) # rest')))"

text \<open>The statements of one window up to \<^verbatim>\<open>st\<close> being ready.\<close>

definition window_stream ::
  "env \<Rightarrow> utc \<Rightarrow> string \<Rightarrow> string list option \<Rightarrow> real \<Rightarrow> inventory option \<Rightarrow> world
   \<Rightarrow> stream result" where
  "window_stream e sotw SDS_TOP trace_ids windowlength inv' w =
     (let eotw = sotw + windowlength in
      case (if truthy_inv inv' then inv' else None) of
        Some v \<Rightarrow>
          (let w1 = log_event
                      (SDSRead SDS_TOP (sotw - windowlength / 2) (eotw + windowlength / 2) 2
                         trace_ids) w;
               st = snd (sds_read e w SDS_TOP (sotw - windowlength / 2)
                           (eotw + windowlength / 2) 2 trace_ids)
           in case remove_response_seismic e v st of
                Inl x \<Rightarrow> (Inl x, w1)
              | Inr st' \<Rightarrow> (Inr (stream_trim e st' sotw eotw), w1))
      | None \<Rightarrow>
          (Inr (snd (sds_read e w SDS_TOP sotw eotw 2 trace_ids)),
           log_event (SDSRead SDS_TOP sotw eotw 2 trace_ids) w))"

text \<open>Lines 172 to 176: the file name, the test on the file and the plot.\<close>

definition window_sgramfile :: "env \<Rightarrow> trace \<Rightarrow> utc \<Rightarrow> string" where
  "window_sgramfile e tr0 sotw =
     tr_network tr0 @ ''.'' @ utc_strftime e ''%Y%m%dT%H%M%S'' sotw @ ''.png''"

definition plot_window :: "env \<Rightarrow> utc \<Rightarrow> bool \<Rightarrow> stream \<Rightarrow> world \<Rightarrow> unit result" where
  "plot_window e sotw overwrite st w =
     (case st of
        [] \<Rightarrow> (Inl IndexError, w)
      | tr0 # rest \<Rightarrow>
          (let sgramfile = window_sgramfile e tr0 sotw
           in if \<not> isfile w sgramfile \<or> overwrite then plot_spectrogram w sgramfile
              else (Inr (), w)))"

definition SDS_to_spectrogram_window ::
  "env \<Rightarrow> utc \<Rightarrow> string \<Rightarrow> string list option \<Rightarrow> real \<Rightarrow> bool \<Rightarrow> inventory option \<Rightarrow> world
   \<Rightarrow> unit result" where
  "SDS_to_spectrogram_window e sotw SDS_TOP trace_ids windowlength overwrite inv' w =
     (case window_stream e sotw SDS_TOP trace_ids windowlength inv' w of
        (Inl x, w1) \<Rightarrow> (Inl x, w1)
      | (Inr st, w1) \<Rightarrow> plot_window e sotw overwrite st w1)"

text \<open>
  The loop advances by \<^verbatim>\<open>windowlength\<close>, which the caller chooses; with a window that
  is not positive it never ends, and the result is \<open>None\<close>.
\<close>

partial_function (option) spectrogram_windows ::
  "env \<Rightarrow> utc \<Rightarrow> utc \<Rightarrow> string \<Rightarrow> string list option \<Rightarrow> real \<Rightarrow> bool \<Rightarrow> inventory option
   \<Rightarrow> world \<Rightarrow> (unit result) option" where
  "spectrogram_windows e sotw endt SDS_TOP trace_ids windowlength overwrite inv' w =
     (if sotw < endt then
        (case SDS_to_spectrogram_window e sotw SDS_TOP trace_ids windowlength overwrite inv' w of
           (Inl x, w1) \<Rightarrow> Some (Inl x, w1)
         | (Inr u, w1) \<Rightarrow>
             spectrogram_windows e (sotw + windowlength) endt SDS_TOP trace_ids windowlength
               overwrite inv' w1)
      else Some (Inr (), w))"

definition SDS_to_spectrogram_wrapper ::
  "env \<Rightarrow> utc \<Rightarrow> utc \<Rightarrow> string \<Rightarrow> string list option \<Rightarrow> real \<Rightarrow> bool \<Rightarrow> inventory option
   \<Rightarrow> world \<Rightarrow> (unit result) option" where
  "SDS_to_spectrogram_wrapper e startt endt SDS_TOP trace_ids windowlength overwrite inv' w =
     spectrogram_windows e startt endt SDS_TOP trace_ids windowlength overwrite inv' w"

subsection \<open>order_traces_by_distance\<close>

text \<open>\<^verbatim>\<open>s.find(c)\<close>: the first index of the character, or \<open>-1\<close>.\<close>

fun str_find :: "string \<Rightarrow> char \<Rightarrow> int" where
  "str_find [] c = - 1"
| "str_find (x # xs) c =
     (if x = c then 0 else (let k = str_find xs c in if k < 0 then - 1 else k + 1))"

text \<open>The loop over \<^verbatim>\<open>enumerate(st)\<close>, which adds to \<^verbatim>\<open>r[i]\<close>.\<close>

fun add_channel_order :: "env \<Rightarrow> stream \<Rightarrow> real list \<Rightarrow> exn + real list" where
  "add_channel_order e [] r = Inr r"
| "add_channel_order e (tr # rest) r =
     (case py_int e (tr_location tr) of
        Inl x \<Rightarrow> Inl x
      | Inr n \<Rightarrow>
          if length (tr_channel tr) < 3 then Inl IndexError
          else
            (case r of
               [] \<Rightarrow> Inl IndexError
             | r0 # rs \<Rightarrow>
                 (case add_channel_order e rest rs of
                    Inl x \<Rightarrow> Inl x
                  | Inr rs' \<Rightarrow>
                      Inr ((r0 + (of_int n / 1000000
                                  + of_int (str_find ''ZNEF0123456789'' (tr_channel tr ! 2))
                                    / 1000000000)) # rs'))))"

definition order_traces_by_distance ::
  "env \<Rightarrow> stream \<Rightarrow> real list \<Rightarrow> bool \<Rightarrow> exn + stream" where
  "order_traces_by_distance e st r assert_channel_order =
     (let r1 = (if r = [] then map tr_distance st else r) in
      case (if assert_channel_order then add_channel_order e st r1 else Inr r1) of
        Inl x \<Rightarrow> Inl x
      | Inr r2 \<Rightarrow>
          (let indices = argsort e r2
           in if \<exists>i \<in> set indices. length st \<le> i then Inl IndexError
              else Inr (map (\<lambda>i. st ! i) indices)))"

subsection \<open>SDS_to_ICEWEB_wrapper\<close>

text \<open>\<^verbatim>\<open>os.makedirs\<close> raises when the path exists; only the leaf is recorded.\<close>

definition os_makedirs :: "world \<Rightarrow> string \<Rightarrow> exn + world" where
  "os_makedirs w p =
     (if fs w p \<noteq> None then Inl FileExistsError else Inr (w\<lparr>fs := (fs w)(p \<mapsto> Dir)\<rparr>))"

definition py_str :: "string option \<Rightarrow> string" where
  "py_str v = (case v of None \<Rightarrow> ''None'' | Some s \<Rightarrow> s)"

text \<open>The names \<^verbatim>\<open>sgramdir\<close> and \<^verbatim>\<open>sgramfile\<close> of a window (lines 301 to 303).\<close>

definition sgramdir_of :: "env \<Rightarrow> string \<Rightarrow> trace \<Rightarrow> utc \<Rightarrow> string" where
  "sgramdir_of e SGRAM_TOP tr0 sotw =
     os_path_join
       (os_path_join (os_path_join SGRAM_TOP (tr_network tr0)) (utc_strftime e ''%Y'' sotw))
       (utc_strftime e ''%j'' sotw)"

definition sgramfile_of :: "env \<Rightarrow> string \<Rightarrow> string option \<Rightarrow> trace \<Rightarrow> utc \<Rightarrow> string" where
  "sgramfile_of e SGRAM_TOP subnet tr0 sotw =
     os_path_join (sgramdir_of e SGRAM_TOP tr0 sotw)
       (py_str subnet @ ''_'' @ utc_strftime e ''%Y%m%d-%H%M'' sotw @ ''.png'')"

text \<open>One round of the loop over the windows of a day, lines 290 to 313.\<close>

definition ICEWEB_window ::
  "env \<Rightarrow> stream \<Rightarrow> utc \<Rightarrow> real \<Rightarrow> bool \<Rightarrow> string option \<Rightarrow> string \<Rightarrow> world \<Rightarrow> unit result" where
  "ICEWEB_window e VEL sotw sgrammins overwrite subnet SGRAM_TOP w =
     (let eotw = sotw + sgrammins * 60;
          tw_st = stream_trim e VEL sotw eotw
      in case tw_st of
           [] \<Rightarrow> (Inr (), w)
         | tr0 # rest \<Rightarrow>
             if 1000 < tr_npts tr0 then
               (let sgramdir = sgramdir_of e SGRAM_TOP tr0 sotw;
                    sgramfile = sgramfile_of e SGRAM_TOP subnet tr0 sotw
                in case (if \<not> isdir w sgramdir then os_makedirs w sgramdir else Inr w) of
                     Inl x \<Rightarrow> (Inl x, w)
                   | Inr w1 \<Rightarrow>
                       if \<not> isfile w1 sgramfile \<or> overwrite then plot_spectrogram w1 sgramfile
                       else (Inr (), w1))
             else (Inr (), w))"

text \<open>
  The loop \<^verbatim>\<open>while sotw < eod\<close>. It returns the values of \<^verbatim>\<open>sotw\<close> and \<^verbatim>\<open>eotw\<close> it
  leaves behind; it never ends when \<^verbatim>\<open>sgrammins\<close> is not positive.
\<close>

partial_function (option) ICEWEB_windows ::
  "env \<Rightarrow> stream \<Rightarrow> utc \<Rightarrow> utc \<Rightarrow> utc option \<Rightarrow> real \<Rightarrow> bool \<Rightarrow> string option \<Rightarrow> string
   \<Rightarrow> world \<Rightarrow> ((utc \<times> utc option) result) option" where
  "ICEWEB_windows e VEL sotw eod eotw sgrammins overwrite subnet SGRAM_TOP w =
     (if sotw < eod then
        (case ICEWEB_window e VEL sotw sgrammins overwrite subnet SGRAM_TOP w of
           (Inl x, w1) \<Rightarrow> Some (Inl x, w1)
         | (Inr u, w1) \<Rightarrow>
             ICEWEB_windows e VEL (sotw + sgrammins * 60) eod (Some (sotw + sgrammins * 60))
               sgrammins overwrite subnet SGRAM_TOP w1)
      else Some (Inr (sotw, eotw), w))"

text \<open>
  One round of the day loop. The variables \<^verbatim>\<open>sotw\<close> and \<^verbatim>\<open>eotw\<close> are local to the
  function and assigned in the branch with an inventory only: \<open>None\<close> is the variable
  not yet bound, and reading it raises \<^verbatim>\<open>UnboundLocalError\<close>, a \<^verbatim>\<open>NameError\<close>. With
  \<^verbatim>\<open>verbose\<close> the other branch reads the name \<^verbatim>\<open>thisSDSob\<close>, bound nowhere.
\<close>

definition SDS_to_ICEWEB_day ::
  "env \<Rightarrow> utc \<Rightarrow> string \<Rightarrow> real option \<Rightarrow> real option \<Rightarrow> inventory option \<Rightarrow> string list option
   \<Rightarrow> bool \<Rightarrow> bool \<Rightarrow> real \<Rightarrow> string option \<Rightarrow> string \<Rightarrow> utc \<Rightarrow> utc option \<Rightarrow> utc option
   \<Rightarrow> world \<Rightarrow> ((utc option \<times> utc option) result) option" where
  "SDS_to_ICEWEB_day e sod SDS_TOP sourcelat sourcelon inv' trace_ids overwrite verbose
       sgrammins subnet SGRAM_TOP startt sotw eotw w =
     (let eod = sod + secsPerDay in
      case (if truthy_inv inv' then inv' else None) of
        Some v \<Rightarrow>
          (let w1 = log_event (SDSRead SDS_TOP (sod - 3600) (eod + 3600) 2 trace_ids) w;
               st = snd (sds_read e w SDS_TOP (sod - 3600) (eod + 3600) 2 trace_ids);
               st1 = attach_distance_to_stream e
                       (attach_station_coordinates_from_inventory e v st) sourcelat sourcelon
           in case order_traces_by_distance e st1 (map tr_distance st1) True of
                Inl x \<Rightarrow> Some (Inl x, w1)
              | Inr st2 \<Rightarrow>
                  (let VEL = stream_trim e
                               (map (trace_remove_response e ''VEL'' v) (stream_select e ''*H*'' st2))
                               sod eod;
                       DISP = stream_trim e
                                (map (trace_remove_response e ''DISP'' v) (stream_select e ''*H*'' st2))
                                sod eod;
                       w2 = log_event (RSAMWrite SDS_TOP VEL) w1;
                       w3 = (if truthy_num sourcelat \<and> truthy_num sourcelon
                             then log_event (DRSWrite SDS_TOP DISP) w2 else w2)
                   in case ICEWEB_windows e VEL sod eod eotw sgrammins overwrite subnet SGRAM_TOP w3 of
                        None \<Rightarrow> None
                      | Some (Inl x, w4) \<Rightarrow> Some (Inl x, w4)
                      | Some (Inr (s, t), w4) \<Rightarrow> Some (Inr (Some s, t), w4)))
      | None \<Rightarrow>
          (case sotw of
             None \<Rightarrow> Some (Inl UnboundLocalError, w)
           | Some s \<Rightarrow>
               (case eotw of
                  None \<Rightarrow> Some (Inl UnboundLocalError, w)
                | Some t \<Rightarrow>
                    (let w1 = log_event (SDSRead SDS_TOP s t 2 trace_ids) w
                     in if verbose then Some (Inl NameError, w1)
                        else Some (Inr (sotw, eotw),
                                   log_event
                                     (RSAMWrite SDS_TOP (snd (sds_read e w SDS_TOP s t 2 trace_ids)))
                                     w1)))))"

function SDS_to_ICEWEB_loop ::
  "env \<Rightarrow> utc \<Rightarrow> utc \<Rightarrow> string \<Rightarrow> real option \<Rightarrow> real option \<Rightarrow> inventory option
   \<Rightarrow> string list option \<Rightarrow> bool \<Rightarrow> bool \<Rightarrow> real \<Rightarrow> string option \<Rightarrow> string \<Rightarrow> utc
   \<Rightarrow> utc option \<Rightarrow> utc option \<Rightarrow> world \<Rightarrow> (unit result) option" where
  "SDS_to_ICEWEB_loop e sod endt SDS_TOP sourcelat sourcelon inv' trace_ids overwrite verbose
       sgrammins subnet SGRAM_TOP startt sotw eotw w =
     (if sod < endt then
        (case SDS_to_ICEWEB_day e sod SDS_TOP sourcelat sourcelon inv' trace_ids overwrite verbose
                sgrammins subnet SGRAM_TOP startt sotw eotw w of
           None \<Rightarrow> None
         | Some (Inl x, w1) \<Rightarrow> Some (Inl x, w1)
         | Some (Inr (sotw1, eotw1), w1) \<Rightarrow>
             SDS_to_ICEWEB_loop e (sod + secsPerDay) endt SDS_TOP sourcelat sourcelon inv'
               trace_ids overwrite verbose sgrammins subnet SGRAM_TOP startt sotw1 eotw1 w1)
      else Some (Inr (), w))"
  by pat_completeness auto
termination
  by (relation "measure (\<lambda>(e, sod, endt, rest). nat \<lceil>endt - sod\<rceil>)")
     (auto simp: secsPerDay_def diff_diff_eq [symmetric])

declare SDS_to_ICEWEB_loop.simps [simp del]

definition SDS_to_ICEWEB_wrapper ::
  "env \<Rightarrow> utc \<Rightarrow> utc \<Rightarrow> string \<Rightarrow> real option \<Rightarrow> real option \<Rightarrow> inventory option
   \<Rightarrow> string list option \<Rightarrow> bool \<Rightarrow> bool \<Rightarrow> real \<Rightarrow> string option \<Rightarrow> string \<Rightarrow> world
   \<Rightarrow> (unit result) option" where
  "SDS_to_ICEWEB_wrapper e startt endt SDS_TOP sourcelat sourcelon inv' trace_ids overwrite
       verbose sgrammins subnet SGRAM_TOP w =
     SDS_to_ICEWEB_loop e startt endt SDS_TOP sourcelat sourcelon inv' trace_ids overwrite
       verbose sgrammins subnet SGRAM_TOP startt None None w"

section \<open>A sample data centre\<close>

text \<open>
  A fixed environment for running the functions on concrete inputs. The data centre
  holds the station \<^verbatim>\<open>STA\<close>; it answers a request for the channel \<^verbatim>\<open>HHZ\<close> with a
  trace sampled at 100 Hz, a request with any other channel pattern with the same
  channel sampled at 50 Hz, and a request for another station with an error. The merge
  raises when two traces of one channel differ in their sampling rate and joins them
  otherwise. Times are rendered for January 1970, in the formats the modules use.
\<close>

definition world0 :: world where
  "world0 = \<lparr>fs = Map.empty, events = []\<rparr>"

definition strftime0 :: "string \<Rightarrow> utc \<Rightarrow> string" where
  "strftime0 fmt t =
     (let m = nat \<lfloor>t / 60\<rfloor>;
          dd = fixed_digits 2 (m div 1440 + 1);
          hh = fixed_digits 2 (m div 60 mod 24);
          mm = fixed_digits 2 (m mod 60);
          ss = fixed_digits 2 (nat \<lfloor>t\<rfloor> mod 60)
      in if fmt = ''%Y'' then ''1970''
         else if fmt = ''%j'' then fixed_digits 3 (m div 1440 + 1)
         else if fmt = ''%Y%m%dT%H%M%S'' then ''197001'' @ dd @ ''T'' @ hh @ mm @ ss
         else if fmt = ''%Y%m%d-%H%M'' then ''197001'' @ dd @ ''-'' @ hh @ mm
         else ''197001'' @ dd @ hh @ mm)"

definition trace0 :: "string \<Rightarrow> string \<Rightarrow> string \<Rightarrow> string \<Rightarrow> real \<Rightarrow> nat \<Rightarrow> trace" where
  "trace0 n s l c rate k =
     \<lparr>tr_network = n, tr_station = s, tr_location = l, tr_channel = c,
      tr_sampling_rate = Finite rate, tr_starttime = 0, tr_npts = k, tr_distance = 0\<rparr>"

definition trace_id :: "trace \<Rightarrow> string" where
  "trace_id tr = tr_network tr @ ''.'' @ tr_station tr @ ''.'' @ tr_location tr @ ''.''
                 @ tr_channel tr"

fun merge_one :: "trace \<Rightarrow> stream \<Rightarrow> exn + stream" where
  "merge_one tr [] = Inr [tr]"
| "merge_one tr (u # us) =
     (if trace_id u = trace_id tr then
        (if tr_sampling_rate u = tr_sampling_rate tr \<and> tr_sampling_rate tr \<noteq> NaN
         then Inr (u\<lparr>tr_npts := tr_npts u + tr_npts tr\<rparr> # us)
         else Inl LibraryError)
      else (case merge_one tr us of Inl x \<Rightarrow> Inl x | Inr us' \<Rightarrow> Inr (u # us')))"

fun merge0 :: "stream \<Rightarrow> exn + stream" where
  "merge0 [] = Inr []"
| "merge0 (tr # rest) = (case merge0 rest of Inl x \<Rightarrow> Inl x | Inr m \<Rightarrow> merge_one tr m)"

definition get_waveforms0 ::
  "client \<Rightarrow> string \<Rightarrow> string \<Rightarrow> string \<Rightarrow> string \<Rightarrow> utc \<Rightarrow> utc \<Rightarrow> exn + stream" where
  "get_waveforms0 c n s l ch t1 t2 =
     (if s = ''STA'' then Inr [trace0 n s l ''HHZ'' (if ch = ''HHZ'' then 100 else 50) 2000]
      else Inl LibraryError)"

definition env0 :: env where
  "env0 =
     \<lparr>utc_strftime = strftime0,
      client_init = (\<lambda>s. Inr (Client s)),
      client_get_stations = (\<lambda>c q. Inr (Inventory [''XX''])),
      client_get_waveforms = get_waveforms0,
      stream_merge = (\<lambda>fill_value method st. merge0 st),
      stream_trim = (\<lambda>st t1 t2. st),
      stream_select = (\<lambda>pattern st. st),
      trace_remove_response = (\<lambda>output v tr. tr),
      sds_read = (\<lambda>w top t1 t2 speed ids. (0, [])),
      inventory2traceid = (\<lambda>v. map (\<lambda>n. n @ ''.STA.00.HHZ'') (networks v)),
      attach_station_coordinates_from_inventory = (\<lambda>v st. st),
      attach_distance_to_stream = (\<lambda>st la lo. st),
      py_int = (\<lambda>s. if s = [] then Inl ValueError else Inr 0),
      argsort = (\<lambda>r. [0..<length r])\<rparr>"

text \<open>The same environment with a day archive that holds no data: every read fails.\<close>

definition env_nodata :: env where
  "env_nodata = env0\<lparr>sds_read := (\<lambda>w top t1 t2 speed ids. (1, []))\<rparr>"

text \<open>A world whose cache holds the inventory and the waveforms of one request.\<close>

definition sml0 :: string where
  "sml0 = ''./cache/197001010000_197001020000_19.0000_-155.0000_1.00.SML''"

definition mseed0 :: string where
  "mseed0 = ''./cache/197001010000_197001020000_XX.STA.00.HHZ_XX.STA.00.HHZ.MSEED''"

definition world_cached :: world where
  "world_cached =
     \<lparr>fs = [''./cache'' \<mapsto> Dir,
            sml0 \<mapsto> File (StationXML (Inventory [''HV''])),
            mseed0 \<mapsto> File (MiniSEED [trace0 ''XX'' ''STA'' ''00'' ''HHZ'' 100 2000])],
      events = []\<rparr>"

text \<open>A world in which the images of the first window are there already.\<close>

definition world_sgram :: world where
  "world_sgram =
     \<lparr>fs = [''./XX/1970/001'' \<mapsto> Dir,
            ''./XX/1970/001/net_19700101-0000.png'' \<mapsto> File PNG,
            ''XX.19700101T000000.png'' \<mapsto> File PNG],
      events = []\<rparr>"

section \<open>What the functions log\<close>

lemma events_log_event [simp]: "events (log_event ev w) = events w @ [ev]"
  by (simp add: log_event_def)

lemma fs_log_event [simp]: "fs (log_event ev w) = fs w"
  by (simp add: log_event_def)

lemma events_os_mkdir: "os_mkdir w p = Inr w1 \<Longrightarrow> events w1 = events w"
  by (auto simp: os_mkdir_def split: if_splits)

lemma events_make_cache_dir: "make_cache_dir w d = Inr w1 \<Longrightarrow> events w1 = events w"
  by (auto simp: make_cache_dir_def events_os_mkdir split: if_splits)

lemma events_write_file: "write_file w p d = Inr w1 \<Longrightarrow> events w1 = events w"
  by (auto simp: write_file_def split: option.splits node.splits)

lemma events_get_MSEED_filename:
  "get_MSEED_filename e w startt endt ids d = (r, w1) \<Longrightarrow> events w1 = events w"
  by (auto simp: get_MSEED_filename_def events_make_cache_dir split: sum.splits if_splits)

lemma events_get_stationXML_filename:
  "get_stationXML_filename e w startt endt la lo ra d = (r, w1) \<Longrightarrow> events w1 = events w"
  by (auto simp: get_stationXML_filename_def events_make_cache_dir split: sum.splits)

lemma CACHE_DIR_eq: "CACHE_DIR = ''./cache''"
  by (simp add: CACHE_DIR_def os_path_join_def)

lemma dirname_CACHE_DIR: "dirname CACHE_DIR = ''.''"
  by (simp add: CACHE_DIR_def os_path_join_def dirname_def)

lemma make_cache_dir_world0:
  "make_cache_dir world0 CACHE_DIR = Inr (world0\<lparr>fs := [''./cache'' \<mapsto> Dir]\<rparr>)"
  by (simp add: make_cache_dir_def isdir_def os_mkdir_def world0_def dirname_CACHE_DIR)
     (simp add: CACHE_DIR_eq)

section \<open>The waveform fetcher on an empty list\<close>

text \<open>
  C10. A call of \<^verbatim>\<open>get_stream\<close> with an empty list of channel identifiers raises
  \<^verbatim>\<open>IndexError\<close> in \<^verbatim>\<open>_get_MSEED_filename\<close>, which reads the first and the last
  identifier, once the cache directory is there: no file is looked up, no client is made
  and no query is sent, so the log is as it was and only the cache directory may be new.
  This holds whatever the files, the client, the times and the flags are.
\<close>

theorem get_stream_empty_trace_ids:
  assumes "make_cache_dir w CACHE_DIR = Inr w1"
  shows "get_MSEED_filename e w startt endt [] CACHE_DIR = (Inl IndexError, w1)
         \<and> get_stream e fdsnClient [] startt endt overwrite cache w = (Inl IndexError, w1)
         \<and> events w1 = events w"
  using assms by (simp add: get_stream_def get_MSEED_filename_def events_make_cache_dir)

theorem get_stream_empty_trace_ids_witness:
  "get_stream env0 (IsStr ''http://service.iris.edu'') [] 0 86400 False False world0
   = (Inl IndexError, world0\<lparr>fs := [''./cache'' \<mapsto> Dir]\<rparr>)"
  using get_stream_empty_trace_ids [OF make_cache_dir_world0] by simp

section \<open>Running the formatters\<close>

lemma fixed_digits_2: "fixed_digits 2 n = [digit_char (n div 10 mod 10), digit_char (n mod 10)]"
  by (simp add: numeral_2_eq_2)

lemma fixed_digits_4:
  "fixed_digits 4 n = [digit_char (n div 1000 mod 10), digit_char (n div 100 mod 10),
                       digit_char (n div 10 mod 10), digit_char (n mod 10)]"
proof -
  have e: "(4::nat) = Suc (Suc (Suc (Suc 0)))" by simp
  show ?thesis by (subst e) (simp add: div_mult2_eq [symmetric])
qed

lemma fixed_digits_3:
  "fixed_digits 3 n = [digit_char (n div 100 mod 10), digit_char (n div 10 mod 10),
                       digit_char (n mod 10)]"
proof -
  have e: "(3::nat) = Suc (Suc (Suc 0))" by simp
  show ?thesis by (subst e) (simp add: div_mult2_eq [symmetric])
qed

lemmas fmt_eval = fmt_f_def scaled_digits_def round_half_even_def Let_def dec.simps
  digit_char_def fixed_digits_2 fixed_digits_3 fixed_digits_4 strftime0_def

lemma make_cache_dir_world_cached: "make_cache_dir world_cached ''./cache'' = Inr world_cached"
  by (simp add: make_cache_dir_def isdir_def world_cached_def sml0_def mseed0_def)

lemma stationXML_filename_cached:
  "get_stationXML_filename env0 world_cached 0 86400 (Some 19) (Some (- 155)) (Some 1) CACHE_DIR
   = (Inr sml0, world_cached)"
  by (simp add: get_stationXML_filename_def make_cache_dir_world_cached env0_def
      fmt_eval sml0_def CACHE_DIR_eq os_path_join_def)


section \<open>A request whose cache file exists\<close>

text \<open>
  The waveform fetcher does what the specification says: with the cache file there and
  \<^verbatim>\<open>overwrite\<close> false it returns the stream read from the file and logs nothing.
\<close>

lemma get_stream_cache_hit:
  assumes "get_MSEED_filename e w startt endt ids CACHE_DIR = (Inr f, w1)"
    and "fs w1 f = Some (File (MiniSEED st))"
    and "\<not> overwrite"
  shows "get_stream e c ids startt endt overwrite cache w = (Inr st, w1) \<and> events w1 = events w"
  using assms events_get_MSEED_filename [OF assms(1)]
  by (simp add: get_stream_def obspy_read_def isfile_def)

text \<open>
  C1. The claim: with the cache file there and \<^verbatim>\<open>overwrite\<close> false, \<^verbatim>\<open>get_inventory\<close>
  and \<^verbatim>\<open>get_stream\<close> return what the file holds and make no remote call. For
  \<^verbatim>\<open>get_inventory\<close> the code does not do that: whenever the file of the request holds an
  inventory \<open>v\<close> and \<^verbatim>\<open>overwrite\<close> is false, the file is read (the read gives \<open>v\<close>),
  nothing is logged, and the function returns \<^verbatim>\<open>None\<close>, not \<open>v\<close>, because its only
  \<^verbatim>\<open>return inv\<close> belongs to the other branch.
\<close>

theorem get_inventory_cache_hit:
  assumes "get_stationXML_filename e w startt endt la lo ra CACHE_DIR = (Inr f, w1)"
    and "fs w1 f = Some (File (StationXML v))"
    and "\<not> overwrite"
  shows "read_inventory w1 f = Inr v
         \<and> get_inventory e c startt endt la lo ra net sta chan overwrite cache w = (Inr None, w1)
         \<and> events w1 = events w"
  using assms events_get_stationXML_filename [OF assms(1)]
  by (simp add: get_inventory_def read_inventory_def isfile_def)

theorem get_inventory_cache_hit_witness:
  "read_inventory world_cached sml0 = Inr (Inventory [''HV''])
   \<and> get_inventory env0 (IsStr ''http://service.iris.edu'') 0 86400 (Some 19) (Some (- 155))
       (Some 1) ''*'' ''*'' ''*'' False False world_cached = (Inr None, world_cached)"
  using get_inventory_cache_hit [OF stationXML_filename_cached, of "Inventory [''HV'']" False]
  by (simp add: world_cached_def sml0_def mseed0_def)

section \<open>The log and the files across the loop over the identifiers\<close>

lemma queries_log_event:
  "queries (log_event ev w) = queries w @ (if is_query ev then [ev] else [])"
  by (simp add: queries_def)

lemma check_client_or_string_world:
  "check_client_or_string e c w = (r, w') \<Longrightarrow> queries w' = queries w \<and> fs w' = fs w"
  by (auto simp: check_client_or_string_def queries_log_event is_query_def
      split: fdsn_thing.splits sum.splits)

lemma fetch_trace_id_events:
  "\<exists>l. events (snd (fetch_trace_id e cl s t x st w)) = events w @ l"
  by (auto simp: fetch_trace_id_def Let_def split: option.splits sum.splits)

lemma fetch_trace_id_fs: "fs (snd (fetch_trace_id e cl s t x st w)) = fs w"
  by (auto simp: fetch_trace_id_def Let_def split: option.splits sum.splits)

lemma fetch_trace_id_query:
  assumes "length (split_on CHR ''.'' x) = 4"
  shows "events (snd (fetch_trace_id e (Some cl) s t x st w))
         = events w @ [GetWaveforms cl (split_on CHR ''.'' x ! 0) (split_on CHR ''.'' x ! 1)
                         (split_on CHR ''.'' x ! 2) (split_on CHR ''.'' x ! 3) s t]"
  using assms by (auto simp: fetch_trace_id_def Let_def split: sum.splits)

lemma fetch_loop_events:
  "\<exists>l. events (snd (fetch_loop e cl s t ids st ts w)) = events w @ l"
proof (induction ids arbitrary: st ts w)
  case Nil
  then show ?case by simp
next
  case (Cons x xs)
  obtain r w1 where r: "fetch_trace_id e cl s t x st w = (r, w1)"
    by (cases "fetch_trace_id e cl s t x st w")
  from fetch_trace_id_events [of e cl s t x st w] r
  obtain l where l: "events w1 = events w @ l" by auto
  show ?case
  proof (cases r)
    case (Inl a)
    with r l show ?thesis by simp
  next
    case (Inr b)
    obtain st1 ts1 where b: "b = (st1, ts1)" by (cases b)
    from Cons.IH [of st1 "Some ts1" w1]
    obtain l' where "events (snd (fetch_loop e cl s t xs st1 (Some ts1) w1)) = events w1 @ l'"
      by auto
    with r Inr b l show ?thesis by simp
  qed
qed

lemma fetch_loop_fs: "fs (snd (fetch_loop e cl s t ids st ts w)) = fs w"
proof (induction ids arbitrary: st ts w)
  case Nil
  then show ?case by simp
next
  case (Cons x xs)
  obtain r w1 where r: "fetch_trace_id e cl s t x st w = (r, w1)"
    by (cases "fetch_trace_id e cl s t x st w")
  with fetch_trace_id_fs [of e cl s t x st w] have f: "fs w1 = fs w" by simp
  show ?case
  proof (cases r)
    case (Inl a)
    with r f show ?thesis by simp
  next
    case (Inr b)
    obtain st1 ts1 where b: "b = (st1, ts1)" by (cases b)
    with r Inr f Cons.IH [of st1 "Some ts1" w1] show ?thesis by simp
  qed
qed

lemma merge_collection_events: "events (snd (merge_collection e st ts cache f w)) = events w"
  by (auto simp: merge_collection_def dest: events_write_file split: sum.splits option.splits)

section \<open>A request with overwrite set\<close>

lemma fetch_from_client_events:
  assumes cl: "check_client_or_string e fdsnClient w1 = (Inr (Some cl), w2)"
    and parts: "length (split_on CHR ''.'' x) = 4"
  shows "\<exists>l. events (snd (fetch_from_client e fdsnClient (x # xs) s t cache f w1))
             = events w2 @ GetWaveforms cl (split_on CHR ''.'' x ! 0) (split_on CHR ''.'' x ! 1)
                              (split_on CHR ''.'' x ! 2) (split_on CHR ''.'' x ! 3) s t # l"
proof -
  let ?g = "GetWaveforms cl (split_on CHR ''.'' x ! 0) (split_on CHR ''.'' x ! 1)
              (split_on CHR ''.'' x ! 2) (split_on CHR ''.'' x ! 3) s t"
  obtain r w3 where r: "fetch_trace_id e (Some cl) s t x [] w2 = (r, w3)"
    by (cases "fetch_trace_id e (Some cl) s t x [] w2")
  with fetch_trace_id_query [OF parts, of e cl s t "[]" w2]
  have w3: "events w3 = events w2 @ [?g]" by simp
  show ?thesis
  proof (cases r)
    case (Inl a)
    with r w3 cl show ?thesis by (simp add: fetch_from_client_def)
  next
    case (Inr b)
    obtain st1 ts1 where b: "b = (st1, ts1)" by (cases b)
    obtain r' w4 where r': "fetch_loop e (Some cl) s t xs st1 (Some ts1) w3 = (r', w4)"
      by (cases "fetch_loop e (Some cl) s t xs st1 (Some ts1) w3")
    with fetch_loop_events [of e "Some cl" s t xs st1 "Some ts1" w3]
    obtain l where l: "events w4 = events w3 @ l" by auto
    show ?thesis
    proof (cases r')
      case (Inl a)
      with r Inr b r' l w3 cl show ?thesis by (simp add: fetch_from_client_def)
    next
      case (Inr c)
      obtain st2 ts2 where c: "c = (st2, ts2)" by (cases c)
      from r \<open>r = Inr b\<close> b r' Inr c l w3 cl merge_collection_events [of e st2 ts2 cache f w4]
      show ?thesis by (simp add: fetch_from_client_def)
    qed
  qed
qed



lemma get_inventory_overwrite_events:
  assumes mk: "make_cache_dir w CACHE_DIR = Inr w1"
    and cl: "check_client_or_string e fdsnClient w1 = (Inr (Some cl), w2)"
  shows "events (snd (get_inventory e fdsnClient startt endt (Some la) (Some lo) (Some ra)
                        net sta chan True cache w))
         = events w2 @ [GetStations cl
                          \<lparr>q_network = net, q_station = sta, q_channel = chan,
                           q_latitude = Some la, q_longitude = Some lo, q_maxradius = Some ra,
                           q_starttime = startt, q_endtime = endt, q_level = ''response''\<rparr>]"
proof -
  let ?q = "\<lparr>q_network = net, q_station = sta, q_channel = chan,
             q_latitude = Some la, q_longitude = Some lo, q_maxradius = Some ra,
             q_starttime = startt, q_endtime = endt, q_level = ''response''\<rparr>"
  obtain f where fn: "get_stationXML_filename e w startt endt (Some la) (Some lo) (Some ra) CACHE_DIR
                      = (Inr f, w1)"
    by (simp add: get_stationXML_filename_def mk fmt_f_def)
  show ?thesis
  proof (cases "client_get_stations e cl ?q")
    case (Inl a)
    then show ?thesis by (simp add: get_inventory_def fn cl)
  next
    case (Inr v)
    show ?thesis
    proof (cases cache)
      case False
      with Inr show ?thesis by (simp add: get_inventory_def fn cl)
    next
      case True
      show ?thesis
      proof (cases "write_file (log_event (GetStations cl ?q) w2) f (StationXML v)")
        case (Inl a)
        with Inr True show ?thesis by (simp add: get_inventory_def fn cl)
      next
        case (Inr w4)
        from events_write_file [OF Inr] \<open>client_get_stations e cl ?q = Inr v\<close> True Inr
        show ?thesis by (simp add: get_inventory_def fn cl)
      qed
    qed
  qed
qed


text \<open>
  C5. With \<^verbatim>\<open>overwrite\<close> true both fetchers ask the remote data centre, whatever files
  the cache holds: \<^verbatim>\<open>get_inventory\<close> sends exactly one station query, with the filters,
  the circle and the time range of the request, and \<^verbatim>\<open>get_stream\<close> sends the waveform
  query for its first identifier (and goes on with the others). The request is a proper
  one: the cache directory can be ensured, \<^verbatim>\<open>fdsnClient\<close> is a client or a string from
  which a client can be made, the coordinates are numbers and the first identifier has
  its four parts.
\<close>

theorem overwrite_queries_remote:
  assumes mk: "make_cache_dir w CACHE_DIR = Inr w1"
    and cl: "check_client_or_string e fdsnClient w1 = (Inr (Some cl), w2)"
    and parts: "length (split_on CHR ''.'' x) = 4"
  shows "queries (snd (get_inventory e fdsnClient startt endt (Some la) (Some lo) (Some ra)
                         net sta chan True cache w))
         = queries w @ [GetStations cl
                          \<lparr>q_network = net, q_station = sta, q_channel = chan,
                           q_latitude = Some la, q_longitude = Some lo, q_maxradius = Some ra,
                           q_starttime = startt, q_endtime = endt, q_level = ''response''\<rparr>]
       \<and> (\<exists>rest. queries (snd (get_stream e fdsnClient (x # xs) startt endt True cache w))
             = queries w @ GetWaveforms cl (split_on CHR ''.'' x ! 0) (split_on CHR ''.'' x ! 1)
                             (split_on CHR ''.'' x ! 2) (split_on CHR ''.'' x ! 3) startt endt
                           # rest)"
proof
  have q: "queries w2 = queries w"
    using check_client_or_string_world [OF cl] events_make_cache_dir [OF mk]
    by (simp add: queries_def)
  then have q': "filter is_query (events w2) = queries w"
    by (simp add: queries_def)
  show "queries (snd (get_inventory e fdsnClient startt endt (Some la) (Some lo) (Some ra)
                         net sta chan True cache w))
         = queries w @ [GetStations cl
                          \<lparr>q_network = net, q_station = sta, q_channel = chan,
                           q_latitude = Some la, q_longitude = Some lo, q_maxradius = Some ra,
                           q_starttime = startt, q_endtime = endt, q_level = ''response''\<rparr>]"
    unfolding queries_def [of "snd _"] get_inventory_overwrite_events [OF mk cl]
    by (simp add: q' is_query_def)
  let ?f = "os_path_join CACHE_DIR
          (utc_strftime e ''%Y%m%d%H%M'' startt @ ''_'' @ utc_strftime e ''%Y%m%d%H%M'' endt @ ''_''
           @ x @ ''_'' @ last (x # xs) @ ''.MSEED'')"
  have gs: "get_stream e fdsnClient (x # xs) startt endt True cache w
            = fetch_from_client e fdsnClient (x # xs) startt endt cache ?f w1"
    by (simp add: get_stream_def get_MSEED_filename_def mk)
  from fetch_from_client_events [OF cl parts, of xs startt endt cache ?f]
  obtain l where l: "events (snd (fetch_from_client e fdsnClient (x # xs) startt endt cache ?f w1))
      = events w2 @ GetWaveforms cl (split_on CHR ''.'' x ! 0) (split_on CHR ''.'' x ! 1)
                      (split_on CHR ''.'' x ! 2) (split_on CHR ''.'' x ! 3) startt endt # l"
    by blast
  show "\<exists>rest. queries (snd (get_stream e fdsnClient (x # xs) startt endt True cache w))
             = queries w @ GetWaveforms cl (split_on CHR ''.'' x ! 0) (split_on CHR ''.'' x ! 1)
                             (split_on CHR ''.'' x ! 2) (split_on CHR ''.'' x ! 3) startt endt
                           # rest"
    unfolding gs queries_def [of "snd _"] l
    by (simp add: q' is_query_def)
qed


lemma make_cache_dir_world_cached_dir: "make_cache_dir world_cached CACHE_DIR = Inr world_cached"
  by (simp add: CACHE_DIR_eq make_cache_dir_world_cached)

lemma queries_world_cached: "queries world_cached = []"
  by (simp add: queries_def world_cached_def)

theorem overwrite_queries_remote_witness:
  "queries (snd (get_inventory env0 (IsStr ''http://service.iris.edu'') 0 86400 (Some 19)
                   (Some (- 155)) (Some 1) ''*'' ''*'' ''*'' True False world_cached))
   = [GetStations (Client ''http://service.iris.edu'')
        \<lparr>q_network = ''*'', q_station = ''*'', q_channel = ''*'',
         q_latitude = Some 19, q_longitude = Some (- 155), q_maxradius = Some 1,
         q_starttime = 0, q_endtime = 86400, q_level = ''response''\<rparr>]
   \<and> (\<exists>rest. queries (snd (get_stream env0 (IsStr ''http://service.iris.edu'')
                             [''XX.STA.00.HHZ''] 0 86400 True False world_cached))
         = GetWaveforms (Client ''http://service.iris.edu'') ''XX'' ''STA'' ''00'' ''HHZ'' 0 86400
           # rest)"
proof -
  have cl: "check_client_or_string env0 (IsStr ''http://service.iris.edu'') world_cached
            = (Inr (Some (Client ''http://service.iris.edu'')),
               log_event (ClientInit ''http://service.iris.edu'') world_cached)"
    by (simp add: check_client_or_string_def env0_def)
  have sp: "split_on CHR ''.'' ''XX.STA.00.HHZ'' = [''XX'', ''STA'', ''00'', ''HHZ'']"
    by simp
  have parts: "length (split_on CHR ''.'' ''XX.STA.00.HHZ'') = 4"
    by (simp only: sp) simp
  show ?thesis
    using overwrite_queries_remote [OF make_cache_dir_world_cached_dir cl parts,
        of 0 86400 19 "- 155" 1 "''*''" "''*''" "''*''" False "[]"]
    by (simp only: sp queries_world_cached append_Nil nth_Cons_0 nth_Cons_Suc One_nat_def
        numeral_2_eq_2 numeral_3_eq_3)
qed

section \<open>A query that fails\<close>

lemma fetch_trace_id_failed:
  assumes "length (split_on CHR ''.'' x) = 4"
    and "client_get_waveforms e cl (split_on CHR ''.'' x ! 0) (split_on CHR ''.'' x ! 1)
           (split_on CHR ''.'' x ! 2) (split_on CHR ''.'' x ! 3) s t = Inl err"
  shows "fetch_trace_id e (Some cl) s t x st w
         = (Inr (st, []),
            log_event (GetWaveforms cl (split_on CHR ''.'' x ! 0) (split_on CHR ''.'' x ! 1)
                         (split_on CHR ''.'' x ! 2) (split_on CHR ''.'' x ! 3) s t) w)"
  using assms by (simp add: fetch_trace_id_def Let_def)

lemma fetch_trace_id_fst:
  "fst (fetch_trace_id e cl s t x st w) = fst (fetch_trace_id e cl s t x st w')"
  by (auto simp: fetch_trace_id_def Let_def split: option.splits sum.splits)

lemma fetch_loop_append:
  "fetch_loop e cl s t (a @ b) st ts w
   = (case fetch_loop e cl s t a st ts w of
        (Inl x, w1) \<Rightarrow> (Inl x, w1)
      | (Inr (st1, ts1), w1) \<Rightarrow> fetch_loop e cl s t b st1 ts1 w1)"
proof (induction a arbitrary: st ts w)
  case Nil
  then show ?case by simp
next
  case (Cons x xs)
  then show ?case
    by (cases "fetch_trace_id e cl s t x st w") (auto split: sum.splits)
qed

lemma fst_fetch_loop:
  "ids \<noteq> [] \<Longrightarrow>
   fst (fetch_loop e cl s t ids st ts w) = fst (fetch_loop e cl s t ids st ts' w')"
proof (induction ids arbitrary: st ts ts' w w')
  case Nil
  then show ?case by simp
next
  case (Cons x xs)
  obtain r w1 where r: "fetch_trace_id e cl s t x st w = (r, w1)"
    by (cases "fetch_trace_id e cl s t x st w")
  obtain r' w1' where r': "fetch_trace_id e cl s t x st w' = (r', w1')"
    by (cases "fetch_trace_id e cl s t x st w'")
  from fetch_trace_id_fst [of e cl s t x st w w'] r r' have eq: "r' = r" by simp
  show ?case
  proof (cases r)
    case (Inl a)
    with r r' eq show ?thesis by simp
  next
    case (Inr b)
    obtain st1 ts1 where b: "b = (st1, ts1)" by (cases b)
    show ?thesis
    proof (cases "xs = []")
      case True
      with r r' eq Inr b show ?thesis by simp
    next
      case False
      from Cons.IH [OF False, of st1 "Some ts1" w1 "Some ts1" w1'] r r' eq Inr b
      show ?thesis by simp
    qed
  qed
qed

lemma fst_merge_collection:
  "fs w = fs w' \<Longrightarrow>
   fst (merge_collection e st ts cache f w) = fst (merge_collection e st ts cache f w')"
  by (auto simp: merge_collection_def write_file_def split: sum.splits option.splits node.splits)

lemma split_sample_ids:
  "split_on CHR ''.'' ''XX.STA.00.HHZ'' = [''XX'', ''STA'', ''00'', ''HHZ'']"
  "split_on CHR ''.'' ''XX.BAD.00.HHZ'' = [''XX'', ''BAD'', ''00'', ''HHZ'']"
  "split_on CHR ''.'' ''XX.STA.10.HHZ'' = [''XX'', ''STA'', ''10'', ''HHZ'']"
  "split_on CHR ''.'' ''XX.STA.00.HH?'' = [''XX'', ''STA'', ''00'', ''HH?'']"
  by simp_all

lemmas env0_eval = env0_def get_waveforms0_def trace0_def trace_id_def fetch_trace_id_def
  split_sample_ids Let_def

text \<open>
  The round of an identifier (one with its four parts) whose query fails leaves the
  collection \<open>st\<close> as it was, sets \<^verbatim>\<open>this_st\<close> to the empty stream, logs the query and
  raises nothing. When another identifier follows it in the list, the branch of
  \<^verbatim>\<open>get_stream\<close> that asks the client returns the same stream, or raises the same
  exception, with and without the failing identifier.
\<close>

lemma failed_query_before_another:
  assumes parts: "length (split_on CHR ''.'' x) = 4"
    and failed: "client_get_waveforms e cl (split_on CHR ''.'' x ! 0) (split_on CHR ''.'' x ! 1)
                   (split_on CHR ''.'' x ! 2) (split_on CHR ''.'' x ! 3) s t = Inl err"
    and post: "post \<noteq> []"
    and cl: "check_client_or_string e fdsnClient w = (Inr (Some cl), w2)"
  shows "fst (fetch_from_client e fdsnClient (pre @ x # post) s t cache f w)
         = fst (fetch_from_client e fdsnClient (pre @ post) s t cache f w)"
proof -
  note fail1 = fetch_trace_id_failed [OF parts failed]
  obtain r w1 where r: "fetch_loop e (Some cl) s t pre [] None w2 = (r, w1)"
    by (cases "fetch_loop e (Some cl) s t pre [] None w2")
  have loops: "fst (fetch_loop e (Some cl) s t (pre @ x # post) [] None w2)
             = fst (fetch_loop e (Some cl) s t (pre @ post) [] None w2)"
  proof (cases r)
    case (Inl a)
    with r show ?thesis by (simp add: fetch_loop_append)
  next
    case (Inr b)
    obtain st1 ts1 where b: "b = (st1, ts1)" by (cases b)
    from r Inr b show ?thesis
      by (simp add: fetch_loop_append fail1) (rule fst_fetch_loop [OF post])
  qed
  obtain ra wa where ra: "fetch_loop e (Some cl) s t (pre @ x # post) [] None w2 = (ra, wa)"
    by (cases "fetch_loop e (Some cl) s t (pre @ x # post) [] None w2")
  obtain rb wb where rb: "fetch_loop e (Some cl) s t (pre @ post) [] None w2 = (rb, wb)"
    by (cases "fetch_loop e (Some cl) s t (pre @ post) [] None w2")
  from loops ra rb have eq: "rb = ra" by simp
  from fetch_loop_fs [of e "Some cl" s t "pre @ x # post" "[]" None w2] ra
  have fa: "fs wa = fs w2" by simp
  from fetch_loop_fs [of e "Some cl" s t "pre @ post" "[]" None w2] rb
  have fb: "fs wb = fs w2" by simp
  show ?thesis
  proof (cases ra)
    case (Inl a)
    with ra rb eq cl show ?thesis by (simp add: fetch_from_client_def)
  next
    case (Inr b)
    obtain st1 ts1 where b: "b = (st1, ts1)" by (cases b)
    from fst_merge_collection [of wa wb e st1 ts1 cache f] fa fb
    have "fst (merge_collection e st1 ts1 cache f wa) = fst (merge_collection e st1 ts1 cache f wb)"
      by simp
    with ra rb eq cl Inr b show ?thesis by (simp add: fetch_from_client_def)
  qed
qed

section \<open>The repair of a merge that fails\<close>

text \<open>
  In the pass for one identifier the mean is taken over the stream that is repaired, but
  the repaired and merged stream is not added to the collection, which stays as it was.
\<close>

lemma per_identifier_repair_is_dropped:
  assumes "length (split_on CHR ''.'' x) = 4"
    and "client_get_waveforms e cl (split_on CHR ''.'' x ! 0) (split_on CHR ''.'' x ! 1)
           (split_on CHR ''.'' x ! 2) (split_on CHR ''.'' x ! 3) s t = Inr this_st"
    and "this_st \<noteq> []"
    and "stream_merge e 0 1 this_st = Inl err"
    and "set_rates (nanmean (map tr_sampling_rate this_st)) this_st = Inr repaired"
    and "stream_merge e 0 1 repaired = Inr merged"
  shows "fst (fetch_trace_id e (Some cl) s t x st w) = Inr (st, merged)"
  using assms by (simp add: fetch_trace_id_def Let_def)

lemma fetch_loop_two_rates:
  "fst (fetch_loop env0 (Some (Client ''iris'')) 0 86400 [''XX.STA.00.HHZ'', ''XX.STA.00.HH?''] [] None w)
   = Inr ([trace0 ''XX'' ''STA'' ''00'' ''HHZ'' 100 2000, trace0 ''XX'' ''STA'' ''00'' ''HHZ'' 50 2000],
          Some [trace0 ''XX'' ''STA'' ''00'' ''HHZ'' 50 2000])"
  by (simp add: env0_eval)

lemma first_merge_fails:
  "stream_merge env0 0 1
     [trace0 ''XX'' ''STA'' ''00'' ''HHZ'' 100 2000, trace0 ''XX'' ''STA'' ''00'' ''HHZ'' 50 2000]
   = Inl LibraryError"
  by (simp add: env0_def trace0_def trace_id_def)

lemma get_stream_two_rates:
  "fst (get_stream env0 (IsClient (Client ''iris'')) [''XX.STA.00.HHZ'', ''XX.STA.00.HH?'']
          0 86400 True False world0)
   = Inr [trace0 ''XX'' ''STA'' ''00'' ''HHZ'' 50 4000]"
proof -
  let ?st = "[trace0 ''XX'' ''STA'' ''00'' ''HHZ'' 100 2000, trace0 ''XX'' ''STA'' ''00'' ''HHZ'' 50 2000]"
  let ?ts = "[trace0 ''XX'' ''STA'' ''00'' ''HHZ'' 50 2000]"
  let ?w1 = "world0\<lparr>fs := [''./cache'' \<mapsto> Dir]\<rparr>"
  obtain w3 where loop:
    "fetch_loop env0 (Some (Client ''iris'')) 0 86400 [''XX.STA.00.HHZ'', ''XX.STA.00.HH?''] [] None ?w1
     = (Inr (?st, Some ?ts), w3)"
    using fetch_loop_two_rates [of ?w1]
    by (cases "fetch_loop env0 (Some (Client ''iris'')) 0 86400
                 [''XX.STA.00.HHZ'', ''XX.STA.00.HH?''] [] None ?w1") simp
  have mc: "merge_collection env0 ?st (Some ?ts) False f w3
            = (Inr [trace0 ''XX'' ''STA'' ''00'' ''HHZ'' 50 4000], w3)" for f
    by (simp add: merge_collection_def env0_def trace0_def trace_id_def set_rates_def nanmean_def)
  show ?thesis
    by (simp add: get_stream_def get_MSEED_filename_def make_cache_dir_world0
        fetch_from_client_def check_client_or_string_def loop mc del: fetch_loop.simps)
qed

text \<open>
  C2. The claim: when the first merge fails because the sampling rates differ, the
  repair sets every rate to the mean of the rates of the segments it merges, in the
  pass for one identifier and in the pass over the whole collection. The pass over the
  collection does not: whenever the first merge of a collection \<open>st\<close> fails, the rates
  of \<open>st\<close> are set to the mean over \<^verbatim>\<open>this_st\<close>, the stream the last round of the loop
  left behind, and what the assignment and the second merge answer (a stream or an
  exception) is what \<^verbatim>\<open>get_stream\<close> goes on with. In the sample, two requests bring
  the same channel at 100 Hz and at 50 Hz; the mean of the collection is 75 Hz and the
  stream returned is at 50 Hz.
\<close>

theorem collection_repair_reads_this_st:
  assumes "st \<noteq> []" and "stream_merge e 0 1 st = Inl x"
  shows "merge_collection e st (Some this_st) False f w
         = (case set_rates (nanmean (map tr_sampling_rate this_st)) st of
              Inl x' \<Rightarrow> Inl x'
            | Inr repaired \<Rightarrow> stream_merge e 0 1 repaired, w)"
  using assms
  by (auto simp: merge_collection_def split: sum.splits)

theorem collection_repair_reads_this_st_witness:
  "fst (get_stream env0 (IsClient (Client ''iris'')) [''XX.STA.00.HHZ'', ''XX.STA.00.HH?'']
          0 86400 True False world0)
   = Inr [trace0 ''XX'' ''STA'' ''00'' ''HHZ'' 50 4000]
   \<and> nanmean (map tr_sampling_rate
         [trace0 ''XX'' ''STA'' ''00'' ''HHZ'' 100 2000, trace0 ''XX'' ''STA'' ''00'' ''HHZ'' 50 2000])
     = Finite 75"
proof -
  let ?st = "[trace0 ''XX'' ''STA'' ''00'' ''HHZ'' 100 2000, trace0 ''XX'' ''STA'' ''00'' ''HHZ'' 50 2000]"
  let ?ts = "[trace0 ''XX'' ''STA'' ''00'' ''HHZ'' 50 2000]"
  let ?w1 = "world0\<lparr>fs := [''./cache'' \<mapsto> Dir]\<rparr>"
  obtain w3 where loop:
    "fetch_loop env0 (Some (Client ''iris'')) 0 86400 [''XX.STA.00.HHZ'', ''XX.STA.00.HH?''] [] None ?w1
     = (Inr (?st, Some ?ts), w3)"
    using fetch_loop_two_rates [of ?w1]
    by (cases "fetch_loop env0 (Some (Client ''iris'')) 0 86400
                 [''XX.STA.00.HHZ'', ''XX.STA.00.HH?''] [] None ?w1") simp
  have ne: "?st \<noteq> []" by simp
  have mc: "merge_collection env0 ?st (Some ?ts) False f w3
            = (Inr [trace0 ''XX'' ''STA'' ''00'' ''HHZ'' 50 4000], w3)" for f
    unfolding collection_repair_reads_this_st [OF ne first_merge_fails]
    by (simp add: env0_def trace0_def trace_id_def set_rates_def nanmean_def)
  have gs: "fst (get_stream env0 (IsClient (Client ''iris'')) [''XX.STA.00.HHZ'', ''XX.STA.00.HH?'']
                  0 86400 True False world0)
            = Inr [trace0 ''XX'' ''STA'' ''00'' ''HHZ'' 50 4000]"
    by (simp add: get_stream_def get_MSEED_filename_def make_cache_dir_world0
        fetch_from_client_def check_client_or_string_def loop mc del: fetch_loop.simps)
  have mean: "nanmean (map tr_sampling_rate ?st) = Finite 75"
    by (simp add: nanmean_def trace0_def)
  from gs mean show ?thesis by simp
qed

section \<open>A failing query for the last identifier\<close>

text \<open>
  C6. The claim: a query that fails for one identifier is replaced by an empty stream
  for that identifier only and does not keep the data fetched for the other identifiers
  out of the collection that is returned. It fails when the failing identifier is the
  last of the list and the merge of the collection raises. The round of the failing
  identifier leaves the collection of the others as it was and sets \<^verbatim>\<open>this_st\<close> to the
  empty stream; the repair after the loop takes the mean over \<^verbatim>\<open>this_st\<close>, which is
  \<^verbatim>\<open>nan\<close>, and assigns it to the traces of the collection, which raises \<^verbatim>\<open>ValueError\<close>
  at a trace that has samples: \<^verbatim>\<open>get_stream\<close> raises and returns no data at all. In
  the sample the same request without the failing identifier returns a stream.
\<close>

theorem failed_last_query_aborts:
  assumes dir: "make_cache_dir w CACHE_DIR = Inr w1"
    and cl: "check_client_or_string e fdsnClient w1 = (Inr (Some cl), w2)"
    and parts: "length (split_on CHR ''.'' x) = 4"
    and failed: "client_get_waveforms e cl (split_on CHR ''.'' x ! 0) (split_on CHR ''.'' x ! 1)
                   (split_on CHR ''.'' x ! 2) (split_on CHR ''.'' x ! 3) s t = Inl err"
    and others: "fst (fetch_loop e (Some cl) s t pre [] None w2) = Inr (st, ts)"
    and merge: "stream_merge e 0 1 st = Inl err'"
    and samples: "list_ex (\<lambda>tr. tr_npts tr \<noteq> 0) st"
  shows "fst (fetch_loop e (Some cl) s t (pre @ [x]) [] None w2) = Inr (st, Some [])
         \<and> fst (get_stream e fdsnClient (pre @ [x]) s t True cache w) = Inl ValueError"
proof -
  obtain w3 where pre: "fetch_loop e (Some cl) s t pre [] None w2 = (Inr (st, ts), w3)"
    using others by (cases "fetch_loop e (Some cl) s t pre [] None w2") simp
  define w4 where "w4 = log_event (GetWaveforms cl (split_on CHR ''.'' x ! 0)
                          (split_on CHR ''.'' x ! 1) (split_on CHR ''.'' x ! 2)
                          (split_on CHR ''.'' x ! 3) s t) w3"
  have loop: "fetch_loop e (Some cl) s t (pre @ [x]) [] None w2 = (Inr (st, Some []), w4)"
    by (simp add: fetch_loop_append pre fetch_trace_id_failed [OF parts failed] w4_def)
  from samples have ne: "st \<noteq> []" by auto
  have nan: "set_rates (nanmean (map tr_sampling_rate [])) st = Inl ValueError"
    using samples by (simp add: set_rates_def nanmean_def)
  have mc: "merge_collection e st (Some []) cache f w4 = (Inl ValueError, w4)" for f
    using ne merge nan by (simp add: merge_collection_def)
  have name: "get_MSEED_filename e w s t (pre @ [x]) CACHE_DIR
              = (Inr (os_path_join CACHE_DIR
                       (utc_strftime e ''%Y%m%d%H%M'' s @ ''_''
                        @ utc_strftime e ''%Y%m%d%H%M'' t @ ''_''
                        @ hd (pre @ [x]) @ ''_'' @ last (pre @ [x]) @ ''.MSEED'')), w1)"
    using dir by (simp add: get_MSEED_filename_def)
  have "fst (get_stream e fdsnClient (pre @ [x]) s t True cache w) = Inl ValueError"
    unfolding get_stream_def name
    by (simp add: fetch_from_client_def cl loop mc del: fetch_loop.simps)
  with loop show ?thesis by simp
qed

theorem failed_last_query_aborts_witness:
  "fst (get_stream env0 (IsClient (Client ''iris''))
          [''XX.STA.00.HHZ'', ''XX.STA.00.HH?'', ''XX.BAD.00.HHZ''] 0 86400 True False world0)
   = Inl ValueError
   \<and> fst (get_stream env0 (IsClient (Client ''iris'')) [''XX.STA.00.HHZ'', ''XX.STA.00.HH?'']
            0 86400 True False world0)
     = Inr [trace0 ''XX'' ''STA'' ''00'' ''HHZ'' 50 4000]"
proof -
  let ?w1 = "world0\<lparr>fs := [''./cache'' \<mapsto> Dir]\<rparr>"
  have cl: "check_client_or_string env0 (IsClient (Client ''iris'')) ?w1
            = (Inr (Some (Client ''iris'')), ?w1)"
    by (simp add: check_client_or_string_def)
  have parts: "length (split_on CHR ''.'' ''XX.BAD.00.HHZ'') = 4"
    by simp
  have failed: "client_get_waveforms env0 (Client ''iris'') (split_on CHR ''.'' ''XX.BAD.00.HHZ'' ! 0)
                  (split_on CHR ''.'' ''XX.BAD.00.HHZ'' ! 1) (split_on CHR ''.'' ''XX.BAD.00.HHZ'' ! 2)
                  (split_on CHR ''.'' ''XX.BAD.00.HHZ'' ! 3) 0 86400 = Inl LibraryError"
    by (simp add: env0_def get_waveforms0_def)
  have samples: "list_ex (\<lambda>tr. tr_npts tr \<noteq> 0)
                   [trace0 ''XX'' ''STA'' ''00'' ''HHZ'' 100 2000,
                    trace0 ''XX'' ''STA'' ''00'' ''HHZ'' 50 2000]"
    by (simp add: trace0_def)
  from failed_last_query_aborts [OF make_cache_dir_world0 cl parts failed
      fetch_loop_two_rates first_merge_fails samples, of False]
  have "fst (get_stream env0 (IsClient (Client ''iris''))
               [''XX.STA.00.HHZ'', ''XX.STA.00.HH?'', ''XX.BAD.00.HHZ''] 0 86400 True False world0)
        = Inl ValueError"
    by simp
  with get_stream_two_rates show ?thesis by simp
qed

section \<open>SDS_to_ICEWEB_wrapper without an inventory\<close>

text \<open>
  C9. A call of \<^verbatim>\<open>SDS_to_ICEWEB_wrapper\<close> with no inventory (\<^verbatim>\<open>None\<close>, or an empty one)
  and \<^verbatim>\<open>startt < endt\<close> raises in its first round: the branch without inventory reads
  \<^verbatim>\<open>sotw\<close> and \<^verbatim>\<open>eotw\<close>, which only the other branch assigns. The exception is
  \<^verbatim>\<open>UnboundLocalError\<close>, a \<^verbatim>\<open>NameError\<close>. The world is as it was before the call:
  the archive is not read, no RSAM is written.
\<close>

theorem ICEWEB_without_inventory:
  assumes "\<not> truthy_inv inv'" and "startt < endt"
  shows "SDS_to_ICEWEB_wrapper e startt endt SDS_TOP sourcelat sourcelon inv' trace_ids overwrite
           verbose sgrammins subnet SGRAM_TOP w
         = Some (Inl UnboundLocalError, w)
       \<and> is_NameError UnboundLocalError"
  using assms
  by (simp add: SDS_to_ICEWEB_wrapper_def SDS_to_ICEWEB_loop.simps SDS_to_ICEWEB_day_def
      is_NameError_def)

theorem ICEWEB_without_inventory_witness:
  "SDS_to_ICEWEB_wrapper env0 0 86400 ''SDS'' None None None None True False 10 None ''.'' world0
   = Some (Inl UnboundLocalError, world0)"
proof -
  have a: "\<not> truthy_inv None" by (simp add: truthy_inv_def)
  have b: "(0::real) < 86400" by simp
  from ICEWEB_without_inventory [OF a b] show ?thesis by simp
qed

section \<open>The reads of the day archive\<close>

lemma reads_log_event: "reads (log_event ev w) = reads w @ (if is_read ev then [ev] else [])"
  by (simp add: reads_def)

lemma reads_events: "events w' = events w \<Longrightarrow> reads w' = reads w"
  by (simp add: reads_def)

lemma reads_check_client_or_string:
  "reads (snd (check_client_or_string e c w)) = reads w"
  by (auto simp: check_client_or_string_def reads_log_event is_read_def
      split: fdsn_thing.splits sum.splits)

lemma reads_fetch_trace_id: "reads (snd (fetch_trace_id e cl s t x st w)) = reads w"
  by (auto simp: fetch_trace_id_def Let_def reads_log_event is_read_def
      split: option.splits sum.splits)

lemma reads_fetch_loop: "reads (snd (fetch_loop e cl s t ids st ts w)) = reads w"
proof (induction ids arbitrary: st ts w)
  case Nil
  then show ?case by simp
next
  case (Cons x xs)
  obtain r w1 where r: "fetch_trace_id e cl s t x st w = (r, w1)"
    by (cases "fetch_trace_id e cl s t x st w")
  with reads_fetch_trace_id [of e cl s t x st w] have f: "reads w1 = reads w" by simp
  show ?case
  proof (cases r)
    case (Inl a)
    with r f show ?thesis by simp
  next
    case (Inr b)
    obtain st1 ts1 where b: "b = (st1, ts1)" by (cases b)
    with r Inr f Cons.IH [of st1 "Some ts1" w1] show ?thesis by simp
  qed
qed

lemma reads_merge_collection: "reads (snd (merge_collection e st ts cache f w)) = reads w"
  by (rule reads_events) (rule merge_collection_events)

lemma reads_fetch_from_client:
  "reads (snd (fetch_from_client e c ids s t cache f w)) = reads w"
proof -
  obtain r w2 where r: "check_client_or_string e c w = (r, w2)"
    by (cases "check_client_or_string e c w")
  with reads_check_client_or_string [of e c w] have w2: "reads w2 = reads w" by simp
  show ?thesis
  proof (cases r)
    case (Inl a)
    with r w2 show ?thesis by (simp add: fetch_from_client_def)
  next
    case (Inr cl)
    obtain r' w3 where r': "fetch_loop e cl s t ids [] None w2 = (r', w3)"
      by (cases "fetch_loop e cl s t ids [] None w2")
    with reads_fetch_loop [of e cl s t ids "[]" None w2] have w3: "reads w3 = reads w2" by simp
    show ?thesis
    proof (cases r')
      case (Inl a)
      with r Inr r' w2 w3 show ?thesis by (simp add: fetch_from_client_def)
    next
      case (Inr b)
      obtain st1 ts1 where b: "b = (st1, ts1)" by (cases b)
      from r \<open>r = Inr cl\<close> r' Inr b w2 w3 reads_merge_collection [of e st1 ts1 cache f w3]
      show ?thesis by (simp add: fetch_from_client_def)
    qed
  qed
qed

lemma reads_get_stream: "reads (snd (get_stream e c ids s t overwrite cache w)) = reads w"
proof -
  obtain r w1 where r: "get_MSEED_filename e w s t ids CACHE_DIR = (r, w1)"
    by (cases "get_MSEED_filename e w s t ids CACHE_DIR")
  from events_get_MSEED_filename [OF r] have w1: "reads w1 = reads w" by (rule reads_events)
  show ?thesis
  proof (cases r)
    case (Inl a)
    with r w1 show ?thesis by (simp add: get_stream_def)
  next
    case (Inr f)
    with r w1 reads_fetch_from_client [of e c ids s t cache f w1] show ?thesis
      by (auto simp: get_stream_def split: sum.splits)
  qed
qed

lemma reads_get_inventory:
  "reads (snd (get_inventory e c s t la lo ra net sta chan overwrite cache w)) = reads w"
proof -
  obtain r w1 where r: "get_stationXML_filename e w s t la lo ra CACHE_DIR = (r, w1)"
    by (cases "get_stationXML_filename e w s t la lo ra CACHE_DIR")
  from events_get_stationXML_filename [OF r] have w1: "reads w1 = reads w" by (rule reads_events)
  obtain r2 w2 where r2: "check_client_or_string e c w1 = (r2, w2)"
    by (cases "check_client_or_string e c w1")
  with reads_check_client_or_string [of e c w1] w1 have w2: "reads w2 = reads w" by simp
  show ?thesis
  proof (cases r)
    case (Inl a)
    with r w1 show ?thesis by (simp add: get_inventory_def)
  next
    case (Inr f)
    with r w1 r2 w2 show ?thesis
      by (auto simp: get_inventory_def Let_def reads_log_event is_read_def
          dest!: events_write_file reads_events split: sum.splits option.splits)
  qed
qed

section \<open>The day loops\<close>

text \<open>
  \<^verbatim>\<open>FDSN_to_SDS_daily_wrapper\<close> does what the specification says of a day loop: over a
  range of \<open>n\<close> whole days a call that returns has read the archive exactly \<open>n\<close> times,
  once for each day, the days 86400 seconds apart, whatever the rounds did in between.
  (The loop always ends: the function is total.)
\<close>

lemma reads_resolve_trace_ids:
  "reads (snd (resolve_trace_ids e s t la lo ra ids url overwrite inv' w)) = reads w"
proof -
  obtain r w1 where r: "get_inventory e url s t la lo ra ''*'' ''*'' ''*'' overwrite False w = (r, w1)"
    by (cases "get_inventory e url s t la lo ra ''*'' ''*'' ''*'' overwrite False w")
  with reads_get_inventory [of e url s t la lo ra "''*''" "''*''" "''*''" overwrite False w]
  have "reads w1 = reads w" by simp
  with r show ?thesis
    by (auto simp: resolve_trace_ids_def split: option.splits sum.splits)
qed

lemma reads_fetch_and_write:
  "reads (snd (fetch_and_write e s t top' la lo ra ids url overwrite inv' w)) = reads w"
proof -
  obtain r w1 where r: "resolve_trace_ids e s t la lo ra ids url overwrite inv' w = (r, w1)"
    by (cases "resolve_trace_ids e s t la lo ra ids url overwrite inv' w")
  with reads_resolve_trace_ids [of e s t la lo ra ids url overwrite inv' w]
  have w1: "reads w1 = reads w" by simp
  show ?thesis
  proof (cases r)
    case (Inl a)
    with r w1 show ?thesis by (simp add: fetch_and_write_def)
  next
    case (Inr b)
    obtain ids2 inv2 where b: "b = (ids2, inv2)" by (cases b)
    show ?thesis
    proof (cases ids2)
      case None
      with r Inr b w1 show ?thesis by (simp add: fetch_and_write_def)
    next
      case (Some l)
      show ?thesis
      proof (cases l)
        case Nil
        with r Inr b w1 Some show ?thesis by (simp add: fetch_and_write_def)
      next
        case (Cons x xs)
        obtain r2 w2 where r2: "get_stream e url (x # xs) s t overwrite False w1 = (r2, w2)"
          by (cases "get_stream e url (x # xs) s t overwrite False w1")
        with reads_get_stream [of e url "x # xs" s t overwrite False w1] w1
        have "reads w2 = reads w" by simp
        with r Inr b Some Cons r2 show ?thesis
          by (cases r2) (simp_all add: fetch_and_write_def reads_log_event is_read_def)
      qed
    qed
  qed
qed

lemma reads_FDSN_to_SDS_day:
  "reads (snd (FDSN_to_SDS_day e startt top' la lo ra ids url overwrite inv' w))
   = reads w @ [SDSRead top' startt (startt + secsPerDay) 2 None]"
  by (simp add: FDSN_to_SDS_day_def Let_def reads_fetch_and_write reads_log_event is_read_def)

lemma map_upt_Suc_shift: "map f [0..<Suc n] = f 0 # map (\<lambda>k. f (Suc k)) [0..<n]"
  by (simp add: map_upt_Suc del: upt_Suc)

lemma FDSN_wrapper_reads:
  "FDSN_to_SDS_daily_wrapper e startt (startt + real n * secsPerDay) top' la lo ra ids url
     overwrite inv' w = (Inr (), w') \<Longrightarrow>
   reads w' = reads w @ map (\<lambda>k. SDSRead top' (startt + real k * secsPerDay)
                                   (startt + real (Suc k) * secsPerDay) 2 None) [0..<n]"
proof (induction n arbitrary: startt ids inv' w)
  case 0
  then show ?case by (simp add: FDSN_to_SDS_daily_wrapper.simps [of e startt])
next
  case (Suc n)
  have lt: "startt < startt + real (Suc n) * secsPerDay"
    by (simp add: secsPerDay_def) 
  have shift: "startt + real (Suc n) * secsPerDay = (startt + secsPerDay) + real n * secsPerDay"
    by (simp add: algebra_simps)
  obtain r w1 where r: "FDSN_to_SDS_day e startt top' la lo ra ids url overwrite inv' w = (r, w1)"
    by (cases "FDSN_to_SDS_day e startt top' la lo ra ids url overwrite inv' w")
  with reads_FDSN_to_SDS_day [of e startt top' la lo ra ids url overwrite inv' w]
  have w1: "reads w1 = reads w @ [SDSRead top' startt (startt + secsPerDay) 2 None]" by simp
  show ?case
  proof (cases r)
    case (Inl a)
    with Suc.prems r lt show ?thesis
      by (simp add: FDSN_to_SDS_daily_wrapper.simps [of e startt])
  next
    case (Inr b)
    obtain ids2 inv2 where b: "b = (ids2, inv2)" by (cases b)
    from Suc.prems r Inr b lt
    have "FDSN_to_SDS_daily_wrapper e (startt + secsPerDay)
            ((startt + secsPerDay) + real n * secsPerDay) top' la lo ra ids2 url overwrite inv2 w1
          = (Inr (), w')"
      by (simp add: FDSN_to_SDS_daily_wrapper.simps [of e startt] shift del: of_nat_Suc)
    from Suc.IH [OF this] w1 show ?thesis
      by (simp add: map_upt_Suc_shift algebra_simps del: upt_Suc)
  qed
qed

text \<open>
  C4. The claim: over \<open>N\<close> whole days a day loop makes \<open>N\<close> rounds, reads the archive
  once in each, and advances by 86400 seconds at the end of each. \<^verbatim>\<open>SDS_to_RSAM_wrapper\<close>
  does not: whenever the range is not empty and the first read succeeds (it returns
  zero) or \<^verbatim>\<open>overwrite\<close> is set (the default), the first round raises \<^verbatim>\<open>NameError\<close>
  after its read, because \<^verbatim>\<open>RSAMobj\<close> is called by a name the module never binds. The
  loop makes no second round, whatever the range is.
\<close>

theorem RSAM_wrapper_raises_NameError:
  assumes "startt < endt"
    and "fst (sds_read e w SDS_TOP (startt - 3600) (startt + secsPerDay + 3600) 2 trace_ids) = 0
         \<or> overwrite"
  shows "SDS_to_RSAM_wrapper e startt endt SDS_TOP trace_ids overwrite w
         = (Inl NameError,
            log_event (SDSRead SDS_TOP (startt - 3600) (startt + secsPerDay + 3600) 2 trace_ids) w)"
  using assms
  by (auto simp: SDS_to_RSAM_wrapper.simps [of e startt] SDS_to_RSAM_day_def Let_def)

theorem RSAM_wrapper_raises_NameError_witness:
  "SDS_to_RSAM_wrapper env0 0 172800 ''SDS'' None True world0
   = (Inl NameError, world0\<lparr>events := [SDSRead ''SDS'' (- 3600) 90000 2 None]\<rparr>)"
proof -
  have a: "(0::real) < 172800" by simp
  have b: "fst (sds_read env0 world0 ''SDS'' (0 - 3600) (0 + secsPerDay + 3600) 2 None) = 0 \<or> True"
    by simp
  from RSAM_wrapper_raises_NameError [OF a b]
  show ?thesis by (simp add: secsPerDay_def log_event_def world0_def)
qed

section \<open>The fallback path of a round\<close>

lemma dirname_cache: "dirname ''./cache'' = ''.''"
  by (simp add: dirname_def)

lemma get_stream_sample_day:
  "get_stream env_nodata (IsClient (Client ''iris'')) [''XX.STA.00.HHZ''] 0 (0 + secsPerDay)
     False False (log_event (SDSRead ''SDS'' 0 (0 + secsPerDay) 2 None) world0)
   = (Inr [trace0 ''XX'' ''STA'' ''00'' ''HHZ'' 100 2000],
      \<lparr>fs = [''./cache'' \<mapsto> Dir],
       events = [SDSRead ''SDS'' 0 86400 2 None,
                 GetWaveforms (Client ''iris'') ''XX'' ''STA'' ''00'' ''HHZ'' 0 86400]\<rparr>)"
  by (simp add: get_stream_def get_MSEED_filename_def make_cache_dir_def isdir_def os_mkdir_def
      dirname_cache isfile_def fetch_from_client_def check_client_or_string_def
      merge_collection_def env_nodata_def env0_eval world0_def log_event_def secsPerDay_def
      CACHE_DIR_eq os_path_join_def fmt_f_def scaled_digits_def round_half_even_def dec.simps
      digit_char_def fixed_digits_2 fixed_digits_4 strftime0_def)

lemma fallback_events_log_event:
  "fallback_events (log_event ev w)
   = fallback_events w @ (if is_query ev \<or> is_archive_write ev then [ev] else [])"
  by (simp add: fallback_events_def)

lemma fallback_events_RSAM_day:
  "fallback_events (snd (SDS_to_RSAM_day e startt SDS_TOP ids overwrite w)) = fallback_events w"
  by (simp add: SDS_to_RSAM_day_def Let_def fallback_events_log_event is_query_def
      is_archive_write_def)

lemma fallback_events_RSAM_wrapper:
  "fallback_events (snd (SDS_to_RSAM_wrapper e startt endt SDS_TOP ids overwrite w))
   = fallback_events w"
proof (induction e startt endt SDS_TOP ids overwrite w rule: SDS_to_RSAM_wrapper.induct)
  case (1 e startt endt SDS_TOP ids overwrite w)
  obtain r w1 where r: "SDS_to_RSAM_day e startt SDS_TOP ids overwrite w = (r, w1)"
    by (cases "SDS_to_RSAM_day e startt SDS_TOP ids overwrite w")
  with fallback_events_RSAM_day [of e startt SDS_TOP ids overwrite w]
  have f: "fallback_events w1 = fallback_events w" by simp
  show ?case
  proof (cases "startt < endt")
    case False
    then show ?thesis by (simp add: SDS_to_RSAM_wrapper.simps [of e startt])
  next
    case True
    show ?thesis
    proof (cases r)
      case (Inl a)
      with True r f show ?thesis by (simp add: SDS_to_RSAM_wrapper.simps [of e startt])
    next
      case (Inr u)
      from 1 [OF True r [symmetric] Inr] f True r Inr show ?thesis
        by (simp add: SDS_to_RSAM_wrapper.simps [of e startt])
    qed
  qed
qed

lemma get_inventory_sample_day:
  "get_inventory env_nodata (IsClient (Client ''iris'')) 0 (0 + secsPerDay) (Some 19)
     (Some (- 155)) (Some 1) ''*'' ''*'' ''*'' False False
     (log_event (SDSRead ''SDS'' 0 (0 + secsPerDay) 2 None) world0)
   = (Inr (Some (Inventory [''XX''])),
      \<lparr>fs = [''./cache'' \<mapsto> Dir],
       events = [SDSRead ''SDS'' 0 86400 2 None,
                 GetStations (Client ''iris'')
                   \<lparr>q_network = ''*'', q_station = ''*'', q_channel = ''*'',
                    q_latitude = Some 19, q_longitude = Some (- 155), q_maxradius = Some 1,
                    q_starttime = 0, q_endtime = 86400, q_level = ''response''\<rparr>]\<rparr>)"
  by (simp add: get_inventory_def get_stationXML_filename_def make_cache_dir_def isdir_def
      os_mkdir_def dirname_cache isfile_def check_client_or_string_def env_nodata_def env0_def
      world0_def log_event_def secsPerDay_def CACHE_DIR_eq os_path_join_def fmt_eval)

lemma get_stream_sample_day_resolved:
  "get_stream env_nodata (IsClient (Client ''iris'')) [''XX.STA.00.HHZ''] 0 (0 + secsPerDay)
     False False
     \<lparr>fs = [''./cache'' \<mapsto> Dir],
      events = [SDSRead ''SDS'' 0 86400 2 None,
                GetStations (Client ''iris'')
                  \<lparr>q_network = ''*'', q_station = ''*'', q_channel = ''*'',
                   q_latitude = Some 19, q_longitude = Some (- 155), q_maxradius = Some 1,
                   q_starttime = 0, q_endtime = 86400, q_level = ''response''\<rparr>]\<rparr>
   = (Inr [trace0 ''XX'' ''STA'' ''00'' ''HHZ'' 100 2000],
      \<lparr>fs = [''./cache'' \<mapsto> Dir],
       events = [SDSRead ''SDS'' 0 86400 2 None,
                 GetStations (Client ''iris'')
                   \<lparr>q_network = ''*'', q_station = ''*'', q_channel = ''*'',
                    q_latitude = Some 19, q_longitude = Some (- 155), q_maxradius = Some 1,
                    q_starttime = 0, q_endtime = 86400, q_level = ''response''\<rparr>,
                 GetWaveforms (Client ''iris'') ''XX'' ''STA'' ''00'' ''HHZ'' 0 86400]\<rparr>)"
  by (simp add: get_stream_def get_MSEED_filename_def make_cache_dir_def isdir_def
      isfile_def fetch_from_client_def check_client_or_string_def
      merge_collection_def env_nodata_def env0_eval log_event_def secsPerDay_def
      CACHE_DIR_eq os_path_join_def fmt_f_def scaled_digits_def round_half_even_def dec.simps
      digit_char_def fixed_digits_2 fixed_digits_4 strftime0_def)

text \<open>
  C3, as amended. In \<^verbatim>\<open>FDSN_to_SDS_daily_wrapper\<close> a round takes the fallback path
  exactly when the read of the archive returns a value other than zero or \<^verbatim>\<open>overwrite\<close>
  is set. Without either the round does nothing after the read. With one of them and
  identifiers given, the round fetches the day with \<^verbatim>\<open>get_stream\<close> and writes the stream
  returned to the archive; an exception of \<^verbatim>\<open>get_stream\<close> is raised on. With no
  identifiers given it takes them from the inventory at hand, or else from the inventory
  that \<^verbatim>\<open>get_inventory\<close> finds for the day and the search circle, and goes on in the
  same way; with no inventory found it fetches nothing and writes nothing.
  \<^verbatim>\<open>SDS_to_RSAM_wrapper\<close> has no fallback path: whatever its reads return, a run sends
  no query and writes no raw data to the archive.
\<close>

theorem day_loop_fallback:
  "(fst (sds_read e w SDS_TOP startt (startt + secsPerDay) 2 None) = 0 \<and> \<not> overwrite \<longrightarrow>
      FDSN_to_SDS_day e startt SDS_TOP la lo ra trace_ids url overwrite inv' w
      = (Inr (trace_ids, inv'), log_event (SDSRead SDS_TOP startt (startt + secsPerDay) 2 None) w))
   \<and> (fst (sds_read e w SDS_TOP startt (startt + secsPerDay) 2 None) \<noteq> 0 \<or> overwrite \<longrightarrow>
        FDSN_to_SDS_day e startt SDS_TOP la lo ra (Some (x # xs)) url overwrite inv' w
        = (case get_stream e url (x # xs) startt (startt + secsPerDay) overwrite False
                  (log_event (SDSRead SDS_TOP startt (startt + secsPerDay) 2 None) w) of
             (Inl err, w2) \<Rightarrow> (Inl err, w2)
           | (Inr st, w2) \<Rightarrow>
               (Inr (Some (x # xs), inv'), log_event (SDSWrite SDS_TOP st overwrite) w2))
        \<and> (\<not> truthy_ids ids \<and> networks v \<noteq> [] \<longrightarrow>
             FDSN_to_SDS_day e startt SDS_TOP la lo ra ids url overwrite (Some v) w
             = (case inventory2traceid e v of
                  [] \<Rightarrow> (Inr (Some [], Some v),
                         log_event (SDSRead SDS_TOP startt (startt + secsPerDay) 2 None) w)
                | y # ys \<Rightarrow>
                    (case get_stream e url (y # ys) startt (startt + secsPerDay) overwrite False
                            (log_event (SDSRead SDS_TOP startt (startt + secsPerDay) 2 None) w) of
                       (Inl err, w2) \<Rightarrow> (Inl err, w2)
                     | (Inr st, w2) \<Rightarrow>
                         (Inr (Some (y # ys), Some v),
                          log_event (SDSWrite SDS_TOP st overwrite) w2))))
        \<and> (\<not> truthy_ids ids \<and> \<not> truthy_inv inv' \<longrightarrow>
             FDSN_to_SDS_day e startt SDS_TOP la lo ra ids url overwrite inv' w
             = (case get_inventory e url startt (startt + secsPerDay) la lo ra ''*'' ''*'' ''*''
                       overwrite False
                       (log_event (SDSRead SDS_TOP startt (startt + secsPerDay) 2 None) w) of
                  (Inl err, w1) \<Rightarrow> (Inl err, w1)
                | (Inr found, w1) \<Rightarrow>
                    (if truthy_inv found then
                       (case inventory2traceid e (the found) of
                          [] \<Rightarrow> (Inr (Some [], found), w1)
                        | y # ys \<Rightarrow>
                            (case get_stream e url (y # ys) startt (startt + secsPerDay) overwrite
                                    False w1 of
                               (Inl err, w2) \<Rightarrow> (Inl err, w2)
                             | (Inr st, w2) \<Rightarrow>
                                 (Inr (Some (y # ys), found),
                                  log_event (SDSWrite SDS_TOP st overwrite) w2)))
                     else (Inr (ids, found), w1)))))
   \<and> fallback_events (snd (SDS_to_RSAM_wrapper e startt endt SDS_TOP ids' overwrite w))
     = fallback_events w"
proof -
  have a: "FDSN_to_SDS_day e startt SDS_TOP la lo ra trace_ids url overwrite inv' w
      = (Inr (trace_ids, inv'), log_event (SDSRead SDS_TOP startt (startt + secsPerDay) 2 None) w)"
    if "fst (sds_read e w SDS_TOP startt (startt + secsPerDay) 2 None) = 0 \<and> \<not> overwrite"
    using that by (simp add: FDSN_to_SDS_day_def Let_def)
  have b: "FDSN_to_SDS_day e startt SDS_TOP la lo ra (Some (x # xs)) url overwrite inv' w
        = (case get_stream e url (x # xs) startt (startt + secsPerDay) overwrite False
                  (log_event (SDSRead SDS_TOP startt (startt + secsPerDay) 2 None) w) of
             (Inl err, w2) \<Rightarrow> (Inl err, w2)
           | (Inr st, w2) \<Rightarrow>
               (Inr (Some (x # xs), inv'), log_event (SDSWrite SDS_TOP st overwrite) w2))"
    if "fst (sds_read e w SDS_TOP startt (startt + secsPerDay) 2 None) \<noteq> 0 \<or> overwrite"
    using that
    by (simp add: FDSN_to_SDS_day_def Let_def fetch_and_write_def resolve_trace_ids_def
        truthy_ids_def)
  have c: "FDSN_to_SDS_day e startt SDS_TOP la lo ra ids url overwrite (Some v) w
             = (case inventory2traceid e v of
                  [] \<Rightarrow> (Inr (Some [], Some v),
                         log_event (SDSRead SDS_TOP startt (startt + secsPerDay) 2 None) w)
                | y # ys \<Rightarrow>
                    (case get_stream e url (y # ys) startt (startt + secsPerDay) overwrite False
                            (log_event (SDSRead SDS_TOP startt (startt + secsPerDay) 2 None) w) of
                       (Inl err, w2) \<Rightarrow> (Inl err, w2)
                     | (Inr st, w2) \<Rightarrow>
                         (Inr (Some (y # ys), Some v),
                          log_event (SDSWrite SDS_TOP st overwrite) w2)))"
    if "fst (sds_read e w SDS_TOP startt (startt + secsPerDay) 2 None) \<noteq> 0 \<or> overwrite"
      and "\<not> truthy_ids ids \<and> networks v \<noteq> []"
  proof (cases "inventory2traceid e v")
    case Nil
    with that show ?thesis
      by (simp add: FDSN_to_SDS_day_def Let_def fetch_and_write_def resolve_trace_ids_def
          truthy_inv_def)
  next
    case (Cons y ys)
    with that show ?thesis
      by (simp add: FDSN_to_SDS_day_def Let_def fetch_and_write_def resolve_trace_ids_def
          truthy_inv_def)
  qed
  have d: "FDSN_to_SDS_day e startt SDS_TOP la lo ra ids url overwrite inv' w
             = (case get_inventory e url startt (startt + secsPerDay) la lo ra ''*'' ''*'' ''*''
                       overwrite False
                       (log_event (SDSRead SDS_TOP startt (startt + secsPerDay) 2 None) w) of
                  (Inl err, w1) \<Rightarrow> (Inl err, w1)
                | (Inr found, w1) \<Rightarrow>
                    (if truthy_inv found then
                       (case inventory2traceid e (the found) of
                          [] \<Rightarrow> (Inr (Some [], found), w1)
                        | y # ys \<Rightarrow>
                            (case get_stream e url (y # ys) startt (startt + secsPerDay) overwrite
                                    False w1 of
                               (Inl err, w2) \<Rightarrow> (Inl err, w2)
                             | (Inr st, w2) \<Rightarrow>
                                 (Inr (Some (y # ys), found),
                                  log_event (SDSWrite SDS_TOP st overwrite) w2)))
                     else (Inr (ids, found), w1)))"
    if "fst (sds_read e w SDS_TOP startt (startt + secsPerDay) 2 None) \<noteq> 0 \<or> overwrite"
      and "\<not> truthy_ids ids \<and> \<not> truthy_inv inv'"
  proof -
    obtain r w1 where g: "get_inventory e url startt (startt + secsPerDay) la lo ra ''*'' ''*'' ''*''
                       overwrite False
                       (log_event (SDSRead SDS_TOP startt (startt + secsPerDay) 2 None) w) = (r, w1)"
      by (cases "get_inventory e url startt (startt + secsPerDay) la lo ra ''*'' ''*'' ''*''
                       overwrite False
                       (log_event (SDSRead SDS_TOP startt (startt + secsPerDay) 2 None) w)")
    show ?thesis
    proof (cases r)
      case (Inl err)
      with that g show ?thesis
        by (simp add: FDSN_to_SDS_day_def Let_def fetch_and_write_def resolve_trace_ids_def)
    next
      case (Inr found)
      show ?thesis
      proof (cases "truthy_inv found")
        case False
        with that g Inr show ?thesis
          by (cases ids)
             (auto simp: FDSN_to_SDS_day_def Let_def fetch_and_write_def resolve_trace_ids_def
               truthy_ids_def)
      next
        case True
        then obtain u where u: "found = Some u" by (cases found) (simp_all add: truthy_inv_def)
        show ?thesis
        proof (cases "inventory2traceid e u")
          case Nil
          with that g Inr True u show ?thesis
            by (simp add: FDSN_to_SDS_day_def Let_def fetch_and_write_def resolve_trace_ids_def)
        next
          case (Cons y ys)
          with that g Inr True u show ?thesis
            by (simp add: FDSN_to_SDS_day_def Let_def fetch_and_write_def resolve_trace_ids_def)
        qed
      qed
    qed
  qed
  from a b c d fallback_events_RSAM_wrapper show ?thesis by blast
qed


theorem day_loop_fallback_witness:
  "FDSN_to_SDS_day env0 0 ''SDS'' None None None (Some [''XX.STA.00.HHZ''])
     (IsClient (Client ''iris'')) False None world0
   = (Inr (Some [''XX.STA.00.HHZ''], None), world0\<lparr>events := [SDSRead ''SDS'' 0 86400 2 None]\<rparr>)
   \<and> FDSN_to_SDS_day env_nodata 0 ''SDS'' None None None (Some [''XX.STA.00.HHZ''])
       (IsClient (Client ''iris'')) False None world0
     = (Inr (Some [''XX.STA.00.HHZ''], None),
        \<lparr>fs = [''./cache'' \<mapsto> Dir],
         events = [SDSRead ''SDS'' 0 86400 2 None,
                   GetWaveforms (Client ''iris'') ''XX'' ''STA'' ''00'' ''HHZ'' 0 86400,
                   SDSWrite ''SDS'' [trace0 ''XX'' ''STA'' ''00'' ''HHZ'' 100 2000] False]\<rparr>)
   \<and> FDSN_to_SDS_day env_nodata 0 ''SDS'' None None None None
       (IsClient (Client ''iris'')) False (Some (Inventory [''XX''])) world0
     = (Inr (Some [''XX.STA.00.HHZ''], Some (Inventory [''XX''])),
        \<lparr>fs = [''./cache'' \<mapsto> Dir],
         events = [SDSRead ''SDS'' 0 86400 2 None,
                   GetWaveforms (Client ''iris'') ''XX'' ''STA'' ''00'' ''HHZ'' 0 86400,
                   SDSWrite ''SDS'' [trace0 ''XX'' ''STA'' ''00'' ''HHZ'' 100 2000] False]\<rparr>)
   \<and> FDSN_to_SDS_day env_nodata 0 ''SDS'' (Some 19) (Some (- 155)) (Some 1) None
       (IsClient (Client ''iris'')) False None world0
     = (Inr (Some [''XX.STA.00.HHZ''], Some (Inventory [''XX''])),
        \<lparr>fs = [''./cache'' \<mapsto> Dir],
         events = [SDSRead ''SDS'' 0 86400 2 None,
                   GetStations (Client ''iris'')
                     \<lparr>q_network = ''*'', q_station = ''*'', q_channel = ''*'',
                      q_latitude = Some 19, q_longitude = Some (- 155), q_maxradius = Some 1,
                      q_starttime = 0, q_endtime = 86400, q_level = ''response''\<rparr>,
                   GetWaveforms (Client ''iris'') ''XX'' ''STA'' ''00'' ''HHZ'' 0 86400,
                   SDSWrite ''SDS'' [trace0 ''XX'' ''STA'' ''00'' ''HHZ'' 100 2000] False]\<rparr>)
   \<and> fallback_events (snd (SDS_to_RSAM_wrapper env0 0 172800 ''SDS'' None False world0)) = []"
proof -
  have quiet: "fst (sds_read env0 world0 ''SDS'' 0 (0 + secsPerDay) 2 None) = 0 \<and> \<not> False"
    by (simp add: env0_def)
  have nodata: "fst (sds_read env_nodata world0 ''SDS'' 0 (0 + secsPerDay) 2 None) \<noteq> 0 \<or> False"
    by (simp add: env_nodata_def env0_def)
  have ids: "inventory2traceid env_nodata (Inventory [''XX'']) = [''XX.STA.00.HHZ'']"
    by (simp add: env_nodata_def env0_def)
  note a = day_loop_fallback [where e = env0 and w = world0 and SDS_TOP = "''SDS''" and startt = 0
      and overwrite = False and la = None and lo = None and ra = None
      and trace_ids = "Some [''XX.STA.00.HHZ'']" and url = "IsClient (Client ''iris'')"
      and inv' = None and x = "''XX.STA.00.HHZ''" and xs = "[]" and ids = None
      and v = "Inventory [''XX'']" and endt = 172800 and ids' = None]
  note b = day_loop_fallback [where e = env_nodata and w = world0 and SDS_TOP = "''SDS''"
      and startt = 0 and overwrite = False and la = None and lo = None and ra = None
      and trace_ids = "Some [''XX.STA.00.HHZ'']" and url = "IsClient (Client ''iris'')"
      and inv' = None and x = "''XX.STA.00.HHZ''" and xs = "[]" and ids = None
      and v = "Inventory [''XX'']" and endt = 172800 and ids' = None,
      THEN conjunct2, THEN conjunct1, THEN mp, OF nodata]
  note c = day_loop_fallback [where e = env_nodata and w = world0 and SDS_TOP = "''SDS''"
      and startt = 0 and overwrite = False and la = "Some 19" and lo = "Some (- 155)"
      and ra = "Some 1" and trace_ids = None and url = "IsClient (Client ''iris'')"
      and inv' = None and x = "''XX.STA.00.HHZ''" and xs = "[]" and ids = None
      and v = "Inventory [''XX'']" and endt = 172800 and ids' = None,
      THEN conjunct2, THEN conjunct1, THEN mp, OF nodata]
  from a [THEN conjunct1] quiet
  have 1: "FDSN_to_SDS_day env0 0 ''SDS'' None None None (Some [''XX.STA.00.HHZ''])
     (IsClient (Client ''iris'')) False None world0
   = (Inr (Some [''XX.STA.00.HHZ''], None), world0\<lparr>events := [SDSRead ''SDS'' 0 86400 2 None]\<rparr>)"
    by (simp add: log_event_def world0_def secsPerDay_def)
  from b [THEN conjunct1] get_stream_sample_day
  have 2: "FDSN_to_SDS_day env_nodata 0 ''SDS'' None None None (Some [''XX.STA.00.HHZ''])
       (IsClient (Client ''iris'')) False None world0
     = (Inr (Some [''XX.STA.00.HHZ''], None),
        \<lparr>fs = [''./cache'' \<mapsto> Dir],
         events = [SDSRead ''SDS'' 0 86400 2 None,
                   GetWaveforms (Client ''iris'') ''XX'' ''STA'' ''00'' ''HHZ'' 0 86400,
                   SDSWrite ''SDS'' [trace0 ''XX'' ''STA'' ''00'' ''HHZ'' 100 2000] False]\<rparr>)"
    by (simp add: log_event_def)
  from b [THEN conjunct2, THEN conjunct1] get_stream_sample_day
  have 3: "FDSN_to_SDS_day env_nodata 0 ''SDS'' None None None None
       (IsClient (Client ''iris'')) False (Some (Inventory [''XX''])) world0
     = (Inr (Some [''XX.STA.00.HHZ''], Some (Inventory [''XX''])),
        \<lparr>fs = [''./cache'' \<mapsto> Dir],
         events = [SDSRead ''SDS'' 0 86400 2 None,
                   GetWaveforms (Client ''iris'') ''XX'' ''STA'' ''00'' ''HHZ'' 0 86400,
                   SDSWrite ''SDS'' [trace0 ''XX'' ''STA'' ''00'' ''HHZ'' 100 2000] False]\<rparr>)"
    by (simp add: log_event_def truthy_ids_def ids)
  from c [THEN conjunct2, THEN conjunct2] get_inventory_sample_day
    get_stream_sample_day_resolved
  have 4: "FDSN_to_SDS_day env_nodata 0 ''SDS'' (Some 19) (Some (- 155)) (Some 1) None
       (IsClient (Client ''iris'')) False None world0
     = (Inr (Some [''XX.STA.00.HHZ''], Some (Inventory [''XX''])),
        \<lparr>fs = [''./cache'' \<mapsto> Dir],
         events = [SDSRead ''SDS'' 0 86400 2 None,
                   GetStations (Client ''iris'')
                     \<lparr>q_network = ''*'', q_station = ''*'', q_channel = ''*'',
                      q_latitude = Some 19, q_longitude = Some (- 155), q_maxradius = Some 1,
                      q_starttime = 0, q_endtime = 86400, q_level = ''response''\<rparr>,
                   GetWaveforms (Client ''iris'') ''XX'' ''STA'' ''00'' ''HHZ'' 0 86400,
                   SDSWrite ''SDS'' [trace0 ''XX'' ''STA'' ''00'' ''HHZ'' 100 2000] False]\<rparr>)"
    by (simp add: log_event_def truthy_ids_def truthy_inv_def ids)
  from a [THEN conjunct2, THEN conjunct2]
  have 5: "fallback_events (snd (SDS_to_RSAM_wrapper env0 0 172800 ''SDS'' None False world0))
           = []"
    by (simp add: fallback_events_def world0_def)
  from 1 2 3 4 5 show ?thesis by simp
qed

text \<open>
  The claim as stated fails for \<^verbatim>\<open>SDS_to_RSAM_wrapper\<close>: over one day, with an archive
  whose read fails (it returns 1) and \<^verbatim>\<open>overwrite\<close> false, the round does not fetch and
  does not write; the call returns with the read as its only trace.
\<close>

theorem RSAM_day_takes_no_fallback_counterexample:
  "fst (sds_read env_nodata world0 ''SDS'' (0 - 3600) (0 + secsPerDay + 3600) 2 None) = 1
   \<and> SDS_to_RSAM_wrapper env_nodata 0 86400 ''SDS'' None False world0
     = (Inr (), world0\<lparr>events := [SDSRead ''SDS'' (- 3600) 90000 2 None]\<rparr>)"
  by (simp add: SDS_to_RSAM_wrapper.simps [of _ 0] SDS_to_RSAM_wrapper.simps [of _ 86400]
      SDS_to_RSAM_day_def env_nodata_def env0_def secsPerDay_def log_event_def world0_def)

section \<open>The windows of the spectrograms\<close>

lemma events_plot_spectrogram: "events (snd (plot_spectrogram w f)) = events w @ [Plot f]"
  by (auto simp: plot_spectrogram_def dest: events_write_file split: sum.splits)

lemma sample_sgram_names:
  "sgramdir_of env0 ''.'' (trace0 ''XX'' s l c r k) 0 = ''./XX/1970/001''"
  "sgramfile_of env0 ''.'' (Some ''net'') (trace0 ''XX'' s l c r k) 0
   = ''./XX/1970/001/net_19700101-0000.png''"
  "window_sgramfile env0 (trace0 ''XX'' s l c r k) 0 = ''XX.19700101T000000.png''"
  by (simp_all add: sgramdir_of_def sgramfile_of_def window_sgramfile_def os_path_join_def
      py_str_def env0_def trace0_def strftime0_def fixed_digits_2 fixed_digits_3 digit_char_def
      Let_def)

text \<open>
  C8, as amended. In the loop over the windows of \<^verbatim>\<open>SDS_to_ICEWEB_wrapper\<close> a window
  whose trimmed stream is empty, or whose first trace has at most 1000 samples, is
  skipped: nothing is plotted and the world is as it was. A window with more than 1000
  samples whose image file is there while \<^verbatim>\<open>overwrite\<close> is false is not plotted and
  its file is untouched; every other such window is plotted, once its directory is
  there or has been made. \<^verbatim>\<open>SDS_to_spectrogram_wrapper\<close> has no gate on the number of
  samples: a window with a trace is plotted unless its image file is there and
  \<^verbatim>\<open>overwrite\<close> is false. Every plot is logged.
\<close>

theorem spectrogram_window_gates:
  "((stream_trim e VEL sotw (sotw + sgrammins * 60) = []
     \<or> tr_npts (hd (stream_trim e VEL sotw (sotw + sgrammins * 60))) \<le> 1000) \<longrightarrow>
      ICEWEB_window e VEL sotw sgrammins overwrite subnet SGRAM_TOP w = (Inr (), w))
   \<and> (stream_trim e VEL sotw (sotw + sgrammins * 60) = tra # rest \<and> 1000 < tr_npts tra
       \<and> isdir w (sgramdir_of e SGRAM_TOP tra sotw) \<longrightarrow>
      ICEWEB_window e VEL sotw sgrammins overwrite subnet SGRAM_TOP w
      = (if isfile w (sgramfile_of e SGRAM_TOP subnet tra sotw) \<and> \<not> overwrite then (Inr (), w)
         else plot_spectrogram w (sgramfile_of e SGRAM_TOP subnet tra sotw)))
   \<and> (stream_trim e VEL sotw (sotw + sgrammins * 60) = tra # rest \<and> 1000 < tr_npts tra
       \<and> \<not> isdir w (sgramdir_of e SGRAM_TOP tra sotw)
       \<and> os_makedirs w (sgramdir_of e SGRAM_TOP tra sotw) = Inr wd \<longrightarrow>
      ICEWEB_window e VEL sotw sgrammins overwrite subnet SGRAM_TOP w
      = (if isfile wd (sgramfile_of e SGRAM_TOP subnet tra sotw) \<and> \<not> overwrite then (Inr (), wd)
         else plot_spectrogram wd (sgramfile_of e SGRAM_TOP subnet tra sotw)))
   \<and> plot_window e sotw overwrite (trb # restb) w
     = (if isfile w (window_sgramfile e trb sotw) \<and> \<not> overwrite then (Inr (), w)
        else plot_spectrogram w (window_sgramfile e trb sotw))
   \<and> events (snd (plot_spectrogram w f)) = events w @ [Plot f]"
proof (intro conjI impI)
  assume "stream_trim e VEL sotw (sotw + sgrammins * 60) = []
     \<or> tr_npts (hd (stream_trim e VEL sotw (sotw + sgrammins * 60))) \<le> 1000"
  then show "ICEWEB_window e VEL sotw sgrammins overwrite subnet SGRAM_TOP w = (Inr (), w)"
    by (cases "stream_trim e VEL sotw (sotw + sgrammins * 60)")
       (auto simp: ICEWEB_window_def Let_def)
next
  assume "stream_trim e VEL sotw (sotw + sgrammins * 60) = tra # rest \<and> 1000 < tr_npts tra
       \<and> isdir w (sgramdir_of e SGRAM_TOP tra sotw)"
  then show "ICEWEB_window e VEL sotw sgrammins overwrite subnet SGRAM_TOP w
      = (if isfile w (sgramfile_of e SGRAM_TOP subnet tra sotw) \<and> \<not> overwrite then (Inr (), w)
         else plot_spectrogram w (sgramfile_of e SGRAM_TOP subnet tra sotw))"
    by (auto simp: ICEWEB_window_def Let_def)
next
  assume "stream_trim e VEL sotw (sotw + sgrammins * 60) = tra # rest \<and> 1000 < tr_npts tra
       \<and> \<not> isdir w (sgramdir_of e SGRAM_TOP tra sotw)
       \<and> os_makedirs w (sgramdir_of e SGRAM_TOP tra sotw) = Inr wd"
  then show "ICEWEB_window e VEL sotw sgrammins overwrite subnet SGRAM_TOP w
      = (if isfile wd (sgramfile_of e SGRAM_TOP subnet tra sotw) \<and> \<not> overwrite then (Inr (), wd)
         else plot_spectrogram wd (sgramfile_of e SGRAM_TOP subnet tra sotw))"
    by (auto simp: ICEWEB_window_def Let_def)
next
  show "plot_window e sotw overwrite (trb # restb) w
     = (if isfile w (window_sgramfile e trb sotw) \<and> \<not> overwrite then (Inr (), w)
        else plot_spectrogram w (window_sgramfile e trb sotw))"
    by (auto simp: plot_window_def Let_def)
next
  show "events (snd (plot_spectrogram w f)) = events w @ [Plot f]"
    by (rule events_plot_spectrogram)
qed

theorem spectrogram_window_gates_witness:
  "ICEWEB_window env0 [trace0 ''XX'' ''STA'' ''00'' ''HHZ'' 100 500] 0 10 True (Some ''net'') ''.'' world0
   = (Inr (), world0)
   \<and> ICEWEB_window env0 [trace0 ''XX'' ''STA'' ''00'' ''HHZ'' 100 2000] 0 10 False (Some ''net'') ''.''
       world_sgram
     = (Inr (), world_sgram)
   \<and> events (snd (ICEWEB_window env0 [trace0 ''XX'' ''STA'' ''00'' ''HHZ'' 100 2000] 0 10 False
                    (Some ''net'') ''.'' world0))
     = [Plot ''./XX/1970/001/net_19700101-0000.png'']
   \<and> plot_window env0 0 False [trace0 ''XX'' ''STA'' ''00'' ''HHZ'' 100 10] world_sgram
     = (Inr (), world_sgram)"
proof -
  let ?short = "trace0 ''XX'' ''STA'' ''00'' ''HHZ'' 100 500"
  let ?long = "trace0 ''XX'' ''STA'' ''00'' ''HHZ'' 100 2000"
  let ?tiny = "trace0 ''XX'' ''STA'' ''00'' ''HHZ'' 100 10"
  let ?wd = "world0\<lparr>fs := [''./XX/1970/001'' \<mapsto> Dir]\<rparr>"
  have trim: "stream_trim env0 st t1 t2 = st" for st t1 t2
    by (simp add: env0_def)
  have npts: "tr_npts ?short = 500" "tr_npts ?long = 2000"
    by (simp_all add: trace0_def)
  have dir: "isdir world_sgram ''./XX/1970/001''" "\<not> isdir world0 ''./XX/1970/001''"
    by (simp_all add: isdir_def world_sgram_def world0_def)
  have fil: "isfile world_sgram ''./XX/1970/001/net_19700101-0000.png''"
    "isfile world_sgram ''XX.19700101T000000.png''"
    "\<not> isfile ?wd ''./XX/1970/001/net_19700101-0000.png''"
    by (simp_all add: isfile_def world_sgram_def world0_def)
  have mk: "os_makedirs world0 ''./XX/1970/001'' = Inr ?wd"
    by (simp add: os_makedirs_def world0_def)
  note g1 = spectrogram_window_gates [where e = env0 and VEL = "[?short]" and sotw = 0
      and sgrammins = 10 and overwrite = True and subnet = "Some ''net''" and SGRAM_TOP = "''.''"
      and w = world0]
  note g2 = spectrogram_window_gates [where e = env0 and VEL = "[?long]" and sotw = 0
      and sgrammins = 10 and overwrite = False and subnet = "Some ''net''" and SGRAM_TOP = "''.''"
      and w = world_sgram and tra = ?long and rest = "[]" and trb = ?tiny and restb = "[]"]
  note g3 = spectrogram_window_gates [where e = env0 and VEL = "[?long]" and sotw = 0
      and sgrammins = 10 and overwrite = False and subnet = "Some ''net''" and SGRAM_TOP = "''.''"
      and w = world0 and tra = ?long and rest = "[]" and wd = ?wd
      and f = "''./XX/1970/001/net_19700101-0000.png''"]
  from g1 have 1: "ICEWEB_window env0 [?short] 0 10 True (Some ''net'') ''.'' world0 = (Inr (), world0)"
    by (simp add: trim npts)
  from g2 have 2: "ICEWEB_window env0 [?long] 0 10 False (Some ''net'') ''.'' world_sgram
                   = (Inr (), world_sgram)"
    by (simp add: trim npts sample_sgram_names dir fil)
  from g3 have "ICEWEB_window env0 [?long] 0 10 False (Some ''net'') ''.'' world0
                = plot_spectrogram ?wd ''./XX/1970/001/net_19700101-0000.png''"
    by (simp add: trim npts sample_sgram_names dir fil mk)
  with g3 have 3: "events (snd (ICEWEB_window env0 [?long] 0 10 False (Some ''net'') ''.'' world0))
                   = [Plot ''./XX/1970/001/net_19700101-0000.png'']"
    by (simp add: events_plot_spectrogram world0_def)
  from g2 have 4: "plot_window env0 0 False [?tiny] world_sgram = (Inr (), world_sgram)"
    by (simp add: sample_sgram_names fil)
  from 1 2 3 4 show ?thesis by simp
qed

text \<open>
  The claim as stated fails twice. In \<^verbatim>\<open>SDS_to_ICEWEB_wrapper\<close> a window of exactly 1000
  samples, which is not fewer than 1000, is not plotted, even with \<^verbatim>\<open>overwrite\<close> set.
  In \<^verbatim>\<open>SDS_to_spectrogram_wrapper\<close> a window of 10 samples is plotted.
\<close>

theorem spectrogram_window_gates_counterexample:
  "tr_npts (trace0 ''XX'' ''STA'' ''00'' ''HHZ'' 100 1000) = 1000
   \<and> ICEWEB_window env0 [trace0 ''XX'' ''STA'' ''00'' ''HHZ'' 100 1000] 0 10 True (Some ''net'') ''.'' world0
     = (Inr (), world0)
   \<and> tr_npts (trace0 ''XX'' ''STA'' ''00'' ''HHZ'' 100 10) = 10
   \<and> plot_window env0 0 False [trace0 ''XX'' ''STA'' ''00'' ''HHZ'' 100 10] world0
     = (Inr (), \<lparr>fs = [''XX.19700101T000000.png'' \<mapsto> File PNG],
                 events = [Plot ''XX.19700101T000000.png'']\<rparr>)"
  by (simp add: ICEWEB_window_def plot_window_def window_sgramfile_def plot_spectrogram_def
      write_file_def isfile_def env0_def trace0_def world0_def log_event_def strftime0_def
      fixed_digits_2 digit_char_def Let_def)

section \<open>The names of the cache files\<close>












text \<open>The formatted number has no underscore, and it determines the rounded number.\<close>

lemma fmt_f_Some: "\<exists>s. fmt_f d (Some x) = Inr s"
  by (simp add: fmt_f_def)





















end
